theory Spec2Isabelle
  imports Main
begin

section \<open>JavaScript values\<close>

text \<open>
  The values the notification pipeline of \<^verbatim>\<open>src/notif-handler.js\<close> handles: what
  \<^verbatim>\<open>JSON.parse\<close> yields, and \<^verbatim>\<open>undefined\<close> for a property that is absent.
  Numbers are integers here (no fraction, no NaN); a string is a list of characters from
  U+0000 to U+00FF, a \<open>char\<close> being the code point.
\<close>

datatype jsval =
    JUndefined
  | JNull
  | JBool bool
  | JNum int
  | JStr string
  | JArr "jsval list"
  | JObj "(string \<times> jsval) list"

text \<open>What \<^verbatim>\<open>if (v)\<close>, \<^verbatim>\<open>!v\<close>, \<^verbatim>\<open>a && b\<close> and \<^verbatim>\<open>a || b\<close> test.\<close>

fun truthy :: "jsval \<Rightarrow> bool" where
  "truthy JUndefined = False"
| "truthy JNull = False"
| "truthy (JBool b) = b"
| "truthy (JNum n) = (n \<noteq> 0)"
| "truthy (JStr s) = (s \<noteq> [])"
| "truthy (JArr xs) = True"
| "truthy (JObj kvs) = True"

text \<open>
  \<^verbatim>\<open>v.key\<close> for a value that is not null or undefined and a key that no prototype defines
  (\<^verbatim>\<open>Type\<close>, \<^verbatim>\<open>Subject\<close>, \<^verbatim>\<open>Message\<close>, \<^verbatim>\<open>Timestamp\<close>, \<^verbatim>\<open>SubscribeURL\<close>, \<^verbatim>\<open>user\<close>,
  \<^verbatim>\<open>events\<close>, \<^verbatim>\<open>segments\<close>): the own property of an object, \<^verbatim>\<open>undefined\<close> otherwise.
\<close>

fun getProp :: "jsval \<Rightarrow> string \<Rightarrow> jsval" where
  "getProp (JObj kvs) k = (case map_of kvs k of Some v \<Rightarrow> v | None \<Rightarrow> JUndefined)"
| "getProp v k = JUndefined"

text \<open>\<^verbatim>\<open>obj.key = v\<close> on an object: the property is replaced in place, or added.\<close>

fun setProp :: "(string \<times> jsval) list \<Rightarrow> string \<Rightarrow> jsval \<Rightarrow> (string \<times> jsval) list" where
  "setProp [] k v = [(k, v)]"
| "setProp ((k', v') # kvs) k v = (if k' = k then (k, v) # kvs else (k', v') # setProp kvs k v)"

section \<open>Objects used as dictionaries\<close>

text \<open>
  \<^verbatim>\<open>ModelsMapping\<close> and \<^verbatim>\<open>_handlers\<close> are object literals read with \<^verbatim>\<open>obj[key]\<close>. Such a read
  finds the object's own property first and then the members every object inherits from
  \<^verbatim>\<open>Object.prototype\<close>: eleven native functions and the \<^verbatim>\<open>__proto__\<close> accessor, which
  yields \<^verbatim>\<open>Object.prototype\<close> itself. A native function carries its name and its
  \<^verbatim>\<open>length\<close> (the number of declared parameters).
\<close>

datatype member = NativeFn string nat | ProtoObject

definition objectPrototype :: "string \<Rightarrow> member option" where
  "objectPrototype = map_of
     [(''constructor'', NativeFn ''Object'' 1),
      (''__defineGetter__'', NativeFn ''__defineGetter__'' 2),
      (''__defineSetter__'', NativeFn ''__defineSetter__'' 2),
      (''hasOwnProperty'', NativeFn ''hasOwnProperty'' 1),
      (''__lookupGetter__'', NativeFn ''__lookupGetter__'' 1),
      (''__lookupSetter__'', NativeFn ''__lookupSetter__'' 1),
      (''isPrototypeOf'', NativeFn ''isPrototypeOf'' 1),
      (''propertyIsEnumerable'', NativeFn ''propertyIsEnumerable'' 1),
      (''toString'', NativeFn ''toString'' 0),
      (''valueOf'', NativeFn ''valueOf'' 0),
      (''__proto__'', ProtoObject),
      (''toLocaleString'', NativeFn ''toLocaleString'' 0)]"

text \<open>
  What \<^verbatim>\<open>Array.prototype.join\<close> writes for a member: the source text of a native function
  as Node prints it, and \<^verbatim>\<open>[object Object]\<close> for the prototype object.
\<close>

fun memberToString :: "member \<Rightarrow> string" where
  "memberToString (NativeFn name arity) = ''function '' @ name @ ''() { [native code] }''"
| "memberToString ProtoObject = ''[object Object]''"

section \<open>Event names\<close>

text \<open>\<^verbatim>\<open>s.split(c)\<close>: the pieces between the separators; never an empty list.\<close>

fun split :: "char \<Rightarrow> string \<Rightarrow> string list" where
  "split c [] = [[]]"
| "split c (x # xs) =
     (if x = c then [] # split c xs
      else (case split c xs of [] \<Rightarrow> [[x]] | w # ws \<Rightarrow> (x # w) # ws))"

text \<open>\<^verbatim>\<open>xs.join(sep)\<close> on strings.\<close>

fun join :: "string \<Rightarrow> string list \<Rightarrow> string" where
  "join sep [] = []"
| "join sep [x] = x"
| "join sep (x # y # zs) = x @ sep @ join sep (y # zs)"

text \<open>
  The two array elements \<^verbatim>\<open>getHandlerName\<close> builds: a string, a member inherited from
  \<^verbatim>\<open>Object.prototype\<close>, or \<^verbatim>\<open>undefined\<close> (a missing second piece).
\<close>

datatype piece = PStr string | PMember member | PUndefined

fun pieceTruthy :: "piece \<Rightarrow> bool" where
  "pieceTruthy (PStr s) = (s \<noteq> [])"
| "pieceTruthy (PMember m) = True"
| "pieceTruthy PUndefined = False"

fun pieceToString :: "piece \<Rightarrow> string" where
  "pieceToString (PStr s) = s"
| "pieceToString (PMember m) = memberToString m"
| "pieceToString PUndefined = []"

text \<open>\<^verbatim>\<open>_.compact\<close>: the truthy elements, in order.\<close>

definition compact :: "piece list \<Rightarrow> piece list" where
  "compact ps = filter pieceTruthy ps"

text \<open>
  \<^verbatim>\<open>ModelsMapping[modelName]\<close>: the two own entries, then the inherited members.
\<close>

definition ModelsMapping :: "string \<Rightarrow> piece" where
  "ModelsMapping modelName =
     (case map_of [(''user_report'', ''user''), (''users_segment'', ''segment'')] modelName of
        Some v \<Rightarrow> PStr v
      | None \<Rightarrow> (case objectPrototype modelName of Some m \<Rightarrow> PMember m | None \<Rightarrow> PUndefined))"

text \<open>
  \<^verbatim>\<open>const [ modelName, action ] = eventName.split(':')\<close>: the first two pieces; the second
  is \<^verbatim>\<open>undefined\<close> when the subject has no colon, and further pieces are dropped.
\<close>

definition modelNameOf :: "string \<Rightarrow> string" where
  "modelNameOf eventName = (case split CHR '':'' eventName of [] \<Rightarrow> [] | m # rest \<Rightarrow> m)"

definition actionOf :: "string \<Rightarrow> piece" where
  "actionOf eventName =
     (case split CHR '':'' eventName of m # a # rest \<Rightarrow> PStr a | _ \<Rightarrow> PUndefined)"

definition getHandlerName :: "string \<Rightarrow> string" where
  "getHandlerName eventName =
     (let modelName = modelNameOf eventName;
          action = actionOf eventName;
          model = (if pieceTruthy (ModelsMapping modelName) then ModelsMapping modelName
                   else PStr modelName)
      in join '':'' (map pieceToString (compact [model, action])))"

section \<open>The handler registry\<close>

text \<open>
  \<^verbatim>\<open>_handlers\<close> starts as \<^verbatim>\<open>{}\<close>; the only writes are those of \<^verbatim>\<open>addEventHandler\<close>. The model
  keeps the own properties that hold handler arrays; a read of any other key falls through to
  \<^verbatim>\<open>Object.prototype\<close>. Handlers are values of a type \<open>'h\<close>; what calling one does is given
  by the environment (\<open>run\<close>, below).
\<close>

type_synonym 'h registry = "string \<Rightarrow> 'h list option"

datatype 'h slot = SList "'h list" | SMember member | SUndefined

definition lookupHandlers :: "'h registry \<Rightarrow> string \<Rightarrow> 'h slot" where
  "lookupHandlers handlers k =
     (case handlers k of
        Some hs \<Rightarrow> SList hs
      | None \<Rightarrow> (case objectPrototype k of Some m \<Rightarrow> SMember m | None \<Rightarrow> SUndefined))"

text \<open>
  A thrown or rejected value: \<^verbatim>\<open>null\<close>/\<^verbatim>\<open>undefined\<close> (on which \<^verbatim>\<open>err.toString()\<close> itself
  throws), or a value with the text \<^verbatim>\<open>err.toString()\<close> returns and its \<^verbatim>\<open>status\<close> property,
  if it has one.
\<close>

datatype reason = Nullish | Reason string "nat option"

text \<open>
  A \<^verbatim>\<open>TypeError\<close> raised by the engine. The wording after the colon is the engine's: the
  texts used below are V8's for a call of something that is no function, and name the
  failing property read otherwise.
\<close>

definition typeError :: "string \<Rightarrow> reason" where
  "typeError operation = Reason (''TypeError: '' @ operation) None"

text \<open>
  \<^verbatim>\<open>addEventHandler(evt, fn)\<close>:
  \<^verbatim>\<open>_handlers[eventName] = _handlers[eventName] || []; _handlers[eventName].push(fn)\<close>.
  An array is truthy even when empty. When the read yields an inherited member, that member
  (truthy) is assigned back, \<^verbatim>\<open>push\<close> is not a function on it and the call throws; every
  later read of the key yields the same member, so the registry is as before.
\<close>

definition addEventHandler :: "'h registry \<Rightarrow> string \<Rightarrow> 'h \<Rightarrow> reason + 'h registry" where
  "addEventHandler handlers evt fn =
     (let eventName = getHandlerName evt in
      case lookupHandlers handlers eventName of
        SList hs \<Rightarrow> Inr (handlers(eventName \<mapsto> hs @ [fn]))
      | SUndefined \<Rightarrow> Inr (handlers(eventName \<mapsto> [fn]))
      | SMember m \<Rightarrow> Inl (typeError ''_handlers[eventName].push is not a function''))"

text \<open>
  \<^verbatim>\<open>addEventHandlers(eventsHash)\<close>: \<^verbatim>\<open>_.map\<close> visits the entries in order; a throw ends it.
\<close>

fun addEventHandlers :: "'h registry \<Rightarrow> (string \<times> 'h) list \<Rightarrow> reason + 'h registry" where
  "addEventHandlers handlers [] = Inr handlers"
| "addEventHandlers handlers ((eventName, fn) # rest) =
     (case addEventHandler handlers eventName fn of
        Inl e \<Rightarrow> Inl e
      | Inr handlers' \<Rightarrow> addEventHandlers handlers' rest)"

section \<open>Requests, notifications and the outside world\<close>

text \<open>A query parameter: one string, or several (a repeated parameter).\<close>

datatype qval = QStr string | QList "string list"

record request =
  query :: "string \<Rightarrow> qval option"
  body :: "string option"  \<comment> \<open>what \<^verbatim>\<open>rawBody\<close> reads; \<open>None\<close> when reading fails\<close>

text \<open>
  The notification handed to handlers. \<^verbatim>\<open>verifySignature\<close> stores
  \<^verbatim>\<open>new Date(message.Timestamp)\<close>; the notifications synthesized per event carry
  \<^verbatim>\<open>message.Timestamp\<close> as it stands in the envelope.
\<close>

datatype tstamp = DateOf jsval | Raw jsval

record notification =
  subject :: jsval
  message :: jsval
  timestamp :: tstamp

text \<open>
  Modelled from the spec: the API client (\<^verbatim>\<open>./client\<close> is not under src/). A client is bound
  to the tenant's organization, id and secret; \<^verbatim>\<open>client.get(shipId)\<close> starts a fetch and
  returns its promise.
\<close>

record client =
  organization :: string
  id' :: string
  secret :: string

text \<open>The second argument of every handler call, \<^verbatim>\<open>context = { req, ship, hull: client }\<close>.\<close>

record handler_context =
  ctx_ship :: jsval
  ctx_hull :: "client option"

text \<open>
  A promise: when it settles, counted from the moment of dispatch, or that it never does.
  A handler call throws, or returns a promise (a value that is no promise counts as
  fulfilled at once under \<^verbatim>\<open>Promise.all\<close>).
\<close>

datatype settle = Fulfils nat | Rejects nat reason | Never

datatype hresult = Throws reason | Returns settle

datatype fetched = Ship jsval | FetchFails reason | FetchPending

datatype get_result = Responded | RequestError

text \<open>
  What \<^verbatim>\<open>validator.validate(message, callback)\<close> does: it calls back without an error, calls
  back with one (the text \<^verbatim>\<open>err.toString()\<close> gives), or throws before it calls back.
\<close>

datatype validation = Valid | Invalid string | ValidatorThrows reason

text \<open>
  What the pipeline does not decide itself: \<^verbatim>\<open>JSON.parse\<close> (\<open>None\<close> when it throws), the
  signature validator of \<^verbatim>\<open>sns-validator\<close>, whether the GET of the subscription handshake
  gets a response, the trait-grouping transform (\<^verbatim>\<open>./trait\<close>, not under src/: a pure
  function, as the spec has it), how the promise of the n-th fetch settles, the engine's
  \<^verbatim>\<open>v > 0\<close> on a value that needs a coercion to a number, the names an array inherits from
  its prototype chain in the running engine (\<^verbatim>\<open>push\<close>, \<^verbatim>\<open>constructor\<close> and so on; \<^verbatim>\<open>__proto__\<close>
  is treated apart), and what each handler does when it is called.
\<close>

record 'h env =
  parse :: "jsval \<Rightarrow> jsval option"
  validate :: "jsval \<Rightarrow> validation"
  handshake :: "jsval \<Rightarrow> get_result"
  group :: "jsval \<Rightarrow> jsval"
  fetch :: "nat \<Rightarrow> fetched"
  coerced_gt0 :: "jsval \<Rightarrow> bool"
  arrayMember :: "string \<Rightarrow> bool"
  run :: "'h \<Rightarrow> notification \<Rightarrow> handler_context \<Rightarrow> hresult"

text \<open>How a request ends at a middleware.\<close>

datatype verdict =
    Continue  \<comment> \<open>\<^verbatim>\<open>next()\<close> was called\<close>
  | Replied nat string  \<comment> \<open>\<^verbatim>\<open>res.status(s)\<close> (200 when not set) and \<^verbatim>\<open>res.end(text)\<close>\<close>
  | Stalled  \<comment> \<open>neither \<^verbatim>\<open>next()\<close> nor a response, and nothing thrown\<close>
  | Escaped  \<comment> \<open>an exception left the middleware function, which has neither called
      \<^verbatim>\<open>next()\<close> nor sent a response; it reaches \<^verbatim>\<open>connect\<close>, which runs the middlewares and
      ends such a request with an error of its own\<close>
  | Uncaught  \<comment> \<open>an error in a callback that nothing handles; no response\<close>

text \<open>
  \<^verbatim>\<open>req.hull\<close>, the observer flag that \<^verbatim>\<open>errorHandler\<close> closes over, and a log of what the
  request did to the outside: the observer's calls, the warnings, the calls of
  \<^verbatim>\<open>onSubscribe\<close> and the handler calls, in order.
\<close>

record 'h hull =
  hull_message :: jsval
  hull_notification :: "notification option"
  hull_client :: "client option"
  hull_ship :: jsval
  onError :: bool
  observed :: "(string \<times> nat) list"
  warned :: "jsval list"
  subscribed :: nat
  invoked :: "('h \<times> notification) list"

section \<open>The middlewares\<close>

subsection \<open>errorHandler\<close>

text \<open>
  \<^verbatim>\<open>res.handleError(message, status)\<close>: the observer first, if one was given, then the
  response.
\<close>

definition handleError :: "'h hull \<Rightarrow> string \<Rightarrow> nat \<Rightarrow> 'h hull \<times> verdict" where
  "handleError st text status =
     ((if onError st then st\<lparr>observed := observed st @ [(text, status)]\<rparr> else st),
      Replied status text)"

definition errorHandler :: "bool \<Rightarrow> 'h hull \<Rightarrow> 'h hull \<times> verdict" where
  "errorHandler observer st = (st\<lparr>onError := observer\<rparr>, Continue)"

subsection \<open>parseRequest\<close>

definition parseRequest :: "'h env \<Rightarrow> request \<Rightarrow> 'h hull \<Rightarrow> 'h hull \<times> verdict" where
  "parseRequest env req st =
     (case body req of
        None \<Rightarrow> handleError st ''Invalid body'' 400
      | Some text \<Rightarrow>
          (case parse env (JStr text) of
             None \<Rightarrow> handleError st ''Invalid body'' 400
           | Some v \<Rightarrow> (st\<lparr>hull_message := v\<rparr>, Continue)))"

subsection \<open>verifySignature\<close>

record options =
  onSubscribe :: bool  \<comment> \<open>\<^verbatim>\<open>typeof options.onSubscribe === 'function'\<close>\<close>
  enforceValidation :: bool
  groupTraits :: bool

text \<open>
  Node's \<^verbatim>\<open>https.get(url[, options][, callback])\<close>: the callback is called with the response
  when one arrives. A function passed after the callback is not a parameter of
  \<^verbatim>\<open>https.get\<close> and is never called; a request that fails emits \<^verbatim>\<open>'error'\<close> on the request
  object that \<^verbatim>\<open>https.get\<close> returns, and the source attaches no listener to it.
  \<open>None\<close>: no callback runs.
\<close>

definition https_get :: "get_result \<Rightarrow> 'a \<Rightarrow> 'a \<Rightarrow> 'a option" where
  "https_get result callback third =
     (case result of Responded \<Rightarrow> Some callback | RequestError \<Rightarrow> None)"

text \<open>
  The validator's callback from the destructuring of \<^verbatim>\<open>req.hull\<close> on: the branch on
  \<^verbatim>\<open>message.Type\<close>.
\<close>

definition onValidated :: "'h env \<Rightarrow> options \<Rightarrow> 'h hull \<Rightarrow> 'h hull \<times> verdict" where
  "onValidated env opts st =
     (let msg = hull_message st in
      if getProp msg ''Type'' = JStr ''SubscriptionConfirmation'' then
        (case https_get (handshake env (getProp msg ''SubscribeURL''))
                ((if onSubscribe opts then st\<lparr>subscribed := Suc (subscribed st)\<rparr> else st),
                 Replied 200 ''subscribed'')
                (handleError st ''Failed to subscribe'' 400) of
           Some r \<Rightarrow> r
         | None \<Rightarrow> (st, Uncaught))
      else if getProp msg ''Type'' = JStr ''Notification'' then
        (case parse env (getProp msg ''Message'') of
           None \<Rightarrow> handleError st ''Invalid message'' 400
         | Some payload \<Rightarrow>
            (let payload' =
                   (case payload of
                      JObj kvs \<Rightarrow>
                        if truthy (getProp payload ''user'') \<and> groupTraits opts
                        then JObj (setProp kvs ''user'' (group env (getProp payload ''user'')))
                        else payload
                    | _ \<Rightarrow> payload)
             in (st\<lparr>hull_notification :=
                       Some \<lparr>subject = getProp msg ''Subject'', message = payload',
                             timestamp = DateOf (getProp msg ''Timestamp'')\<rparr>\<rparr>,
                 Continue)))
      else (st, Stalled))"

text \<open>
  The middleware. \<^verbatim>\<open>validator.validate\<close> is called outside any \<^verbatim>\<open>try\<close>: what it throws leaves
  the middleware.
\<close>

definition verifySignature :: "'h env \<Rightarrow> options \<Rightarrow> 'h hull \<Rightarrow> 'h hull \<times> verdict" where
  "verifySignature env opts st =
     (if \<not> truthy (hull_message st) then handleError st ''Empty Message'' 400
      else
        (case validate env (hull_message st) of
           ValidatorThrows e \<Rightarrow> (st, Escaped)
         | Invalid err \<Rightarrow>
             if enforceValidation opts then handleError st err 400
             else onValidated env opts (st\<lparr>warned := warned st @ [hull_message st]\<rparr>)
         | Valid \<Rightarrow> onValidated env opts st))"

subsection \<open>enrichWithHullClient\<close>

text \<open>
  \<^verbatim>\<open>String.prototype.trim\<close> removes white space and line terminators at both ends. Of the
  characters up to U+00FF these are tab, line feed, vertical tab, form feed, carriage return,
  space and the no-break space U+00A0.
\<close>

definition isSpace :: "char \<Rightarrow> bool" where
  "isSpace c =
     (c \<in> set [CHR 0x09, CHR 0x0A, CHR 0x0B, CHR 0x0C, CHR 0x0D, CHR 0x20, CHR 0xA0])"

definition trim :: "string \<Rightarrow> string" where
  "trim s = rev (dropWhile isSpace (rev (dropWhile isSpace s)))"

text \<open>
  One round of the \<^verbatim>\<open>reduce\<close> over \<^verbatim>\<open>['organization', 'ship', 'secret']\<close>, on the object \<^verbatim>\<open>cfg\<close>
  that starts as \<^verbatim>\<open>{}\<close>: a string is stored as it is, of a list with a first element that
  element, anything else leaves \<^verbatim>\<open>cfg[k]\<close> unset; a string stored under \<^verbatim>\<open>k\<close> is then replaced
  by what \<^verbatim>\<open>trim\<close> makes of it.
\<close>

definition configure :: "request \<Rightarrow> (string \<Rightarrow> string option) \<Rightarrow> string \<Rightarrow> (string \<Rightarrow> string option)" where
  "configure req cfg k =
     (let cfg1 = (case query req k of
                    Some (QStr val) \<Rightarrow> cfg(k \<mapsto> val)
                  | Some (QList (v # vs)) \<Rightarrow> cfg(k \<mapsto> v)
                  | _ \<Rightarrow> cfg)
      in case cfg1 k of Some s \<Rightarrow> cfg1(k \<mapsto> trim s) | None \<Rightarrow> cfg1)"

definition config :: "request \<Rightarrow> string \<Rightarrow> string option" where
  "config req =
     foldl (configure req) (\<lambda>k. None) [''organization'', ''ship'', ''secret'']"

text \<open>\<^verbatim>\<open>config.k\<close> as a condition: set and not the empty string.\<close>

definition present :: "string option \<Rightarrow> bool" where
  "present v = (case v of None \<Rightarrow> False | Some s \<Rightarrow> s \<noteq> [])"

text \<open>
  \<^verbatim>\<open>_cache\<close> is an array (\<^verbatim>\<open>[]\<close>) used as a dictionary from ship ids to promises. A read
  \<^verbatim>\<open>_cache[k]\<close> yields \<^verbatim>\<open>undefined\<close>, \<^verbatim>\<open>null\<close>, the promise of a fetch (named by its number in the
  list of fetches started so far), a function or object found on the prototype chain, or,
  for \<^verbatim>\<open>length\<close>, a number.
\<close>

datatype cell = CUndefined | CNull | CFetch nat | CMember | CNumber nat

text \<open>
  The array: its own properties other than \<^verbatim>\<open>length\<close>, its length, whether its prototype is
  still \<^verbatim>\<open>Array.prototype\<close> (\<^verbatim>\<open>_cache['__proto__'] = null\<close> takes it away), and the fetches
  started so far, that is the calls \<^verbatim>\<open>client.get(shipId)\<close> with the client that made them.
\<close>

record cache =
  entries :: "string \<Rightarrow> cell option"
  len :: nat
  proto :: bool
  fetches :: "(client \<times> string) list"

text \<open>
  An array index is a key that is the decimal numeral, without leading zeros, of a number
  below \<open>2\<^sup>3\<^sup>2 - 1\<close>.
\<close>

definition digit :: "char \<Rightarrow> bool" where
  "digit ch = (48 \<le> (of_char ch :: nat) \<and> (of_char ch :: nat) \<le> 57)"

definition decimal :: "string \<Rightarrow> nat" where
  "decimal k = foldl (\<lambda>n ch. 10 * n + (of_char ch - 48)) 0 k"

definition arrayIndex :: "string \<Rightarrow> nat option" where
  "arrayIndex k =
     (if k \<noteq> [] \<and> list_all digit k \<and> (k = ''0'' \<or> hd k \<noteq> CHR ''0'') \<and> decimal k < 4294967295
      then Some (decimal k) else None)"

text \<open>
  \<^verbatim>\<open>_cache[k]\<close>: \<^verbatim>\<open>length\<close> is the array's length; any other key is an own property if there is
  one, else what the prototype chain has under that name while the array has its prototype
  (for \<^verbatim>\<open>__proto__\<close> the prototype itself).
\<close>

definition cacheRead :: "(string \<Rightarrow> bool) \<Rightarrow> cache \<Rightarrow> string \<Rightarrow> cell" where
  "cacheRead members c k =
     (if k = ''length'' then CNumber (len c)
      else
        (case entries c k of
           Some v \<Rightarrow> v
         | None \<Rightarrow> if proto c \<and> (k = ''__proto__'' \<or> members k) then CMember else CUndefined))"

fun cellTruthy :: "cell \<Rightarrow> bool" where
  "cellTruthy (CFetch n) = True"
| "cellTruthy CMember = True"
| "cellTruthy (CNumber n) = (n \<noteq> 0)"
| "cellTruthy CNull = False"
| "cellTruthy CUndefined = False"

text \<open>
  An own property is created or overwritten; one at an array index at or beyond the length
  makes the array that much longer.
\<close>

definition store :: "cache \<Rightarrow> string \<Rightarrow> cell \<Rightarrow> cache" where
  "store c k v =
     c\<lparr>entries := (entries c)(k \<mapsto> v),
       len := (case arrayIndex k of Some i \<Rightarrow> max (len c) (Suc i) | None \<Rightarrow> len c)\<rparr>"

text \<open>
  \<^verbatim>\<open>_cache[k] = null\<close>. For \<^verbatim>\<open>length\<close> the length becomes 0 (\<^verbatim>\<open>null\<close> as a number) and every
  property at an array index is deleted. For \<^verbatim>\<open>__proto__\<close>, unless it is an own property
  already, the setter inherited from \<^verbatim>\<open>Object.prototype\<close> sets the prototype to \<^verbatim>\<open>null\<close>.
\<close>

definition assignNull :: "cache \<Rightarrow> string \<Rightarrow> cache" where
  "assignNull c k =
     (if k = ''length''
      then c\<lparr>entries := (\<lambda>j. if arrayIndex j = None then entries c j else None), len := 0\<rparr>
      else if k = ''__proto__'' \<and> entries c k = None \<and> proto c then c\<lparr>proto := False\<rparr>
      else store c k CNull)"

text \<open>
  \<^verbatim>\<open>_cache[k] = _cache[k]\<close> for a truthy value \<open>v\<close> just read: the length is set to itself, the
  prototype to itself, and anything else becomes (or stays) an own property.
\<close>

definition assignBack :: "cache \<Rightarrow> string \<Rightarrow> cell \<Rightarrow> cache" where
  "assignBack c k v =
     (if k = ''length'' then c
      else if k = ''__proto__'' \<and> entries c k = None \<and> proto c then c
      else store c k v)"

text \<open>The \<^verbatim>\<open>RangeError\<close> of an assignment to \<^verbatim>\<open>length\<close> of a value that is no array length.\<close>

definition rangeError :: reason where
  "rangeError = Reason ''RangeError: Invalid array length'' None"

text \<open>
  \<^verbatim>\<open>getCurrentShip(shipId, client, forceUpdate)\<close>: what it returns or throws, and the cache
  after it. When the read is falsy \<^verbatim>\<open>client.get(shipId)\<close> is called and its promise assigned:
  under \<^verbatim>\<open>length\<close> the assignment throws (a promise is no array length); under any other key
  the promise becomes an own property (\<^verbatim>\<open>__proto__\<close> reads falsy only when no setter is
  inherited any more) and is what the final read returns.
\<close>

definition getCurrentShip ::
  "(string \<Rightarrow> bool) \<Rightarrow> cache \<Rightarrow> string \<Rightarrow> client \<Rightarrow> bool \<Rightarrow> (reason + cell) \<times> cache" where
  "getCurrentShip members c shipId cl forceUpdate =
     (let c1 = (if forceUpdate then assignNull c shipId else c);
          cur = cacheRead members c1 shipId
      in if cellTruthy cur then (Inr cur, assignBack c1 shipId cur)
         else
           (let c2 = c1\<lparr>fetches := fetches c1 @ [(cl, shipId)]\<rparr> in
            if shipId = ''length'' then (Inl rangeError, c2)
            else (Inr (CFetch (length (fetches c1))),
                  store c2 shipId (CFetch (length (fetches c1))))))"

text \<open>\<^verbatim>\<open>message && message.Subject === 'ship:update'\<close>.\<close>

definition forceShipUpdate :: "'h hull \<Rightarrow> bool" where
  "forceShipUpdate st =
     (truthy (hull_message st) \<and> getProp (hull_message st) ''Subject'' = JStr ''ship:update'')"

definition str :: "string option \<Rightarrow> string" where
  "str v = (case v of None \<Rightarrow> [] | Some s \<Rightarrow> s)"

text \<open>
  The middleware. The client is stored on the request before the cache is consulted. What
  \<^verbatim>\<open>getCurrentShip\<close> throws leaves the middleware, and so does the \<^verbatim>\<open>TypeError\<close> of \<^verbatim>\<open>.then\<close> on
  a returned value that is no promise. A fetch that fails is answered 400 with the error's
  text; an error that is \<^verbatim>\<open>null\<close> or \<^verbatim>\<open>undefined\<close> has no \<^verbatim>\<open>toString\<close>.
\<close>

definition enrichWithHullClient ::
  "'h env \<Rightarrow> cache \<Rightarrow> request \<Rightarrow> 'h hull \<Rightarrow> ('h hull \<times> verdict) \<times> cache" where
  "enrichWithHullClient env c req st =
     (if present (config req ''organization'') \<and> present (config req ''ship'')
         \<and> present (config req ''secret'')
      then
        (let cl = \<lparr>organization = str (config req ''organization''),
                   id' = str (config req ''ship''),
                   secret = str (config req ''secret'')\<rparr>;
             st1 = st\<lparr>hull_client := Some cl\<rparr>
         in case getCurrentShip (arrayMember env) c (id' cl) cl (forceShipUpdate st) of
              (Inl e, c') \<Rightarrow> ((st1, Escaped), c')
            | (Inr (CFetch n), c') \<Rightarrow>
                (case fetch env n of
                   Ship s \<Rightarrow> ((st1\<lparr>hull_ship := s\<rparr>, Continue), c')
                 | FetchFails Nullish \<Rightarrow> ((st1, Uncaught), c')
                 | FetchFails (Reason text status) \<Rightarrow> (handleError st1 text 400, c')
                 | FetchPending \<Rightarrow> ((st1, Stalled), c'))
            | (Inr other, c') \<Rightarrow> ((st1, Escaped), c'))
      else ((st, Continue), c))"

subsection \<open>processHandlers\<close>

text \<open>
  The \<^verbatim>\<open>try\<close> block up to the aggregation: the handler calls made so far, the promises
  pushed to \<^verbatim>\<open>processing\<close>, and the exception that ended the block, if any. After a throw
  nothing more is called.
\<close>

record 'h run =
  started :: "('h \<times> notification) list"
  processing :: "settle list"
  thrown :: "reason option"

definition callHandler :: "'h env \<Rightarrow> handler_context \<Rightarrow> 'h run \<Rightarrow> 'h \<times> notification \<Rightarrow> 'h run" where
  "callHandler env ctx r call =
     (case thrown r of
        Some e \<Rightarrow> r
      | None \<Rightarrow>
          (case run env (fst call) (snd call) ctx of
             Throws e \<Rightarrow> r\<lparr>started := started r @ [call], thrown := Some e\<rparr>
           | Returns p \<Rightarrow> r\<lparr>started := started r @ [call], processing := processing r @ [p]\<rparr>))"

definition invokeEach :: "'h env \<Rightarrow> handler_context \<Rightarrow> ('h \<times> notification) list \<Rightarrow> 'h run \<Rightarrow> 'h run" where
  "invokeEach env ctx calls r = foldl (callHandler env ctx) r calls"

text \<open>
  \<^verbatim>\<open>handlers[eventName]\<close> under \<^verbatim>\<open>messageHandlers && messageHandlers.length > 0\<close>: the handlers
  to call, or the \<^verbatim>\<open>TypeError\<close> of \<^verbatim>\<open>messageHandlers.map\<close> on an inherited function with
  declared parameters.
\<close>

definition messageHandlers :: "'h registry \<Rightarrow> string \<Rightarrow> reason + 'h list" where
  "messageHandlers handlers eventName =
     (case lookupHandlers handlers eventName of
        SList hs \<Rightarrow> Inr hs
      | SUndefined \<Rightarrow> Inr []
      | SMember (NativeFn name arity) \<Rightarrow>
          if 0 < arity then Inl (typeError ''messageHandlers.map is not a function'') else Inr []
      | SMember ProtoObject \<Rightarrow> Inr [])"

text \<open>\<^verbatim>\<open>handlers['event'] || []\<close>; no object inherits a member named \<^verbatim>\<open>event\<close>.\<close>

definition eventHandlers :: "'h registry \<Rightarrow> 'h list" where
  "eventHandlers handlers = (case handlers ''event'' of Some hs \<Rightarrow> hs | None \<Rightarrow> [])"

text \<open>\<^verbatim>\<open>v > 0\<close>; a string, an array or an object is first coerced by the engine.\<close>

fun positive :: "(jsval \<Rightarrow> bool) \<Rightarrow> jsval \<Rightarrow> bool" where
  "positive coerce (JNum n) = (0 < n)"
| "positive coerce (JBool b) = b"
| "positive coerce JUndefined = False"
| "positive coerce JNull = False"
| "positive coerce v = coerce v"

text \<open>
  \<^verbatim>\<open>const { events = [] } = notification.message\<close> under \<^verbatim>\<open>events.length > 0\<close>: the entries to
  map over, or the \<^verbatim>\<open>TypeError\<close> of \<^verbatim>\<open>null.length\<close> or of \<^verbatim>\<open>events.map\<close> on a value that is no
  array.
\<close>

definition eventEntries :: "(jsval \<Rightarrow> bool) \<Rightarrow> jsval \<Rightarrow> reason + jsval list" where
  "eventEntries coerce payload =
     (case getProp payload ''events'' of
        JUndefined \<Rightarrow> Inr []
      | JNull \<Rightarrow> Inl (typeError ''Cannot read property length of null'')
      | JArr es \<Rightarrow> Inr es
      | JStr s \<Rightarrow> if s \<noteq> [] then Inl (typeError ''events.map is not a function'') else Inr []
      | JObj kvs \<Rightarrow>
          if positive coerce (getProp (JObj kvs) ''length'')
          then Inl (typeError ''events.map is not a function'') else Inr []
      | _ \<Rightarrow> Inr [])"

text \<open>The notification synthesized for one event entry.\<close>

definition eventPayload :: "jsval \<Rightarrow> jsval \<Rightarrow> jsval \<Rightarrow> notification" where
  "eventPayload msg payload event =
     \<lparr>subject = JStr ''event'',
      message = JObj [(''user'', getProp payload ''user''),
                      (''segments'', (case getProp payload ''segments'' of
                                        JUndefined \<Rightarrow> JArr [] | v \<Rightarrow> v)),
                      (''event'', event)],
      timestamp = Raw (getProp msg ''Timestamp'')\<rparr>"

text \<open>\<^verbatim>\<open>events.map(event => eventHandlers.map(fn => ...))\<close>: the calls, in order.\<close>

definition eventCalls :: "jsval \<Rightarrow> jsval \<Rightarrow> jsval list \<Rightarrow> 'h list \<Rightarrow> ('h \<times> notification) list" where
  "eventCalls msg payload events hs =
     concat (map (\<lambda>event. map (\<lambda>fn. (fn, eventPayload msg payload event)) hs) events)"

definition dispatch :: "'h env \<Rightarrow> 'h registry \<Rightarrow> 'h hull \<Rightarrow> notification \<Rightarrow> 'h run" where
  "dispatch env handlers st n =
     (let ctx = \<lparr>ctx_ship = hull_ship st, ctx_hull = hull_client st\<rparr>;
          r0 = \<lparr>started = [], processing = [], thrown = None\<rparr>
      in case getProp (hull_message st) ''Subject'' of
           JStr s \<Rightarrow>
             (case messageHandlers handlers (getHandlerName s) of
                Inl e \<Rightarrow> r0\<lparr>thrown := Some e\<rparr>
              | Inr hs \<Rightarrow>
                 (let r1 = invokeEach env ctx (map (\<lambda>fn. (fn, n)) hs) r0 in
                  if thrown r1 = None \<and> eventHandlers handlers \<noteq> []
                     \<and> getHandlerName s = ''user:update'' \<and> truthy (message n)
                  then
                    (case eventEntries (coerced_gt0 env) (message n) of
                       Inl e \<Rightarrow> r1\<lparr>thrown := Some e\<rparr>
                     | Inr es \<Rightarrow>
                         invokeEach env ctx
                           (eventCalls (hull_message st) (message n) es (eventHandlers handlers)) r1)
                  else r1))
         | _ \<Rightarrow> r0\<lparr>thrown := Some (typeError ''eventName.split is not a function'')\<rparr>)"

text \<open>
  \<^verbatim>\<open>Promise.all\<close>: rejected as soon as one of the promises is (the earliest; of two at the
  same instant the one that stands first), fulfilled once all are, pending otherwise.
\<close>

fun firstRejection :: "settle list \<Rightarrow> (nat \<times> reason) option" where
  "firstRejection [] = None"
| "firstRejection (Rejects t e # ps) =
     (case firstRejection ps of
        None \<Rightarrow> Some (t, e)
      | Some (t', e') \<Rightarrow> if t' < t then Some (t', e') else Some (t, e))"
| "firstRejection (Fulfils t # ps) = firstRejection ps"
| "firstRejection (Never # ps) = firstRejection ps"


fun lastFulfilment :: "settle list \<Rightarrow> nat" where
  "lastFulfilment [] = 0"
| "lastFulfilment (Fulfils t # ps) = max t (lastFulfilment ps)"
| "lastFulfilment (Rejects t e # ps) = lastFulfilment ps"
| "lastFulfilment (Never # ps) = lastFulfilment ps"

datatype joined = AllFulfilled nat | FirstRejected nat reason | NeverSettles

definition promiseAll :: "settle list \<Rightarrow> joined" where
  "promiseAll ps =
     (case firstRejection ps of
        Some (t, e) \<Rightarrow> FirstRejected t e
      | None \<Rightarrow> if Never \<in> set ps then NeverSettles else AllFulfilled (lastFulfilment ps))"

text \<open>
  The middleware: the updated request, how it ends, and when that is decided (\<open>None\<close>: never).
  \<^verbatim>\<open>err.status || 400\<close> takes the status unless it is absent or 0.
\<close>

definition statusOr400 :: "nat option \<Rightarrow> nat" where
  "statusOr400 status = (case status of None \<Rightarrow> 400 | Some n \<Rightarrow> if n = 0 then 400 else n)"

definition processHandlers ::
  "'h env \<Rightarrow> 'h registry \<Rightarrow> 'h hull \<Rightarrow> notification \<Rightarrow> ('h hull \<times> verdict) \<times> nat option" where
  "processHandlers env handlers st n =
     (let r = dispatch env handlers st n;
          st' = st\<lparr>invoked := invoked st @ started r\<rparr>
      in case thrown r of
           Some Nullish \<Rightarrow> ((st', Escaped), Some 0)
         | Some (Reason text status) \<Rightarrow> (handleError st' text 500, Some 0)
         | None \<Rightarrow>
             if processing r \<noteq> [] then
               (case promiseAll (processing r) of
                  AllFulfilled t \<Rightarrow> ((st', Continue), Some t)
                | FirstRejected t Nullish \<Rightarrow> ((st', Uncaught), Some t)
                | FirstRejected t (Reason text status) \<Rightarrow>
                    (handleError st' text (statusOr400 status), Some t)
                | NeverSettles \<Rightarrow> ((st', Stalled), None))
             else ((st', Continue), Some 0))"

section \<open>NotifHandler\<close>

record 'h notif_options =
  opt_handlers :: "(string \<times> 'h) list option"
  opt_onError :: bool
  opt_onSubscribe :: bool
  opt_groupTraits :: jsval

text \<open>\<^verbatim>\<open>if (options.handlers) addEventHandlers(options.handlers)\<close>, on the empty registry.\<close>

definition NotifHandler :: "'h notif_options \<Rightarrow> reason + 'h registry" where
  "NotifHandler opts =
     (case opt_handlers opts of
        None \<Rightarrow> Inr (\<lambda>k. None)
      | Some eventsHash \<Rightarrow> addEventHandlers (\<lambda>k. None) eventsHash)"

definition signatureOptions :: "'h notif_options \<Rightarrow> options" where
  "signatureOptions opts =
     \<lparr>onSubscribe = opt_onSubscribe opts, enforceValidation = False,
      groupTraits = (opt_groupTraits opts \<noteq> JBool False)\<rparr>"

definition newRequest :: "'h hull" where
  "newRequest =
     \<lparr>hull_message = JUndefined, hull_notification = None, hull_client = None,
      hull_ship = JUndefined, onError = False, observed = [], warned = [], subscribed = 0,
      invoked = []\<rparr>"

text \<open>The last middleware, \<^verbatim>\<open>(req, res) => { res.end('ok'); }\<close>, run when the one before
  called \<^verbatim>\<open>next()\<close>.\<close>

definition ok :: "'h hull \<times> verdict \<Rightarrow> 'h hull \<times> verdict" where
  "ok r = (case r of (st, Continue) \<Rightarrow> (st, Replied 200 ''ok'') | r' \<Rightarrow> r')"

text \<open>
  The middlewares after \<^verbatim>\<open>verifySignature\<close>. \<^verbatim>\<open>verifySignature\<close> calls \<^verbatim>\<open>next()\<close> only after it has
  set \<^verbatim>\<open>req.hull.notification\<close>, so the branch \<open>None\<close> is never taken.
\<close>

definition afterSignature ::
  "'h env \<Rightarrow> 'h registry \<Rightarrow> cache \<Rightarrow> request \<Rightarrow> 'h hull \<Rightarrow> ('h hull \<times> verdict) \<times> cache" where
  "afterSignature env handlers c req st =
     (case enrichWithHullClient env c req st of
        ((st', Continue), c') \<Rightarrow>
          (case hull_notification st' of
             Some n \<Rightarrow> (ok (fst (processHandlers env handlers st' n)), c')
           | None \<Rightarrow> ((st', Escaped), c'))
      | r \<Rightarrow> r)"

text \<open>
  \<^verbatim>\<open>handler(req, res)\<close>: the middlewares in the order of the \<^verbatim>\<open>app.use\<close> calls, each run when
  the one before called \<^verbatim>\<open>next()\<close>. The registry and the cache are those of the moment the
  request arrives; the cache is returned as the request leaves it.
\<close>

definition handler ::
  "'h env \<Rightarrow> 'h notif_options \<Rightarrow> 'h registry \<Rightarrow> cache \<Rightarrow> request \<Rightarrow> ('h hull \<times> verdict) \<times> cache" where
  "handler env opts handlers c req =
     (case errorHandler (opt_onError opts) newRequest of
        (st0, Continue) \<Rightarrow>
          (case parseRequest env req st0 of
             (st1, Continue) \<Rightarrow>
               (case verifySignature env (signatureOptions opts) st1 of
                  (st2, Continue) \<Rightarrow> afterSignature env handlers c req st2
                | r \<Rightarrow> (r, c))
           | r \<Rightarrow> (r, c))
      | r \<Rightarrow> (r, c))"

section \<open>Notions the properties are stated with\<close>

text \<open>
  The event name as the specification words it: the subject split on \<^verbatim>\<open>:\<close> into model name
  and action, the model name renamed by the table (\<^verbatim>\<open>user_report\<close> to \<^verbatim>\<open>user\<close>,
  \<^verbatim>\<open>users_segment\<close> to \<^verbatim>\<open>segment\<close>, any other name unchanged), the two joined by \<^verbatim>\<open>:\<close> with an
  absent or empty side left out.
\<close>

definition spec_rename :: "string \<Rightarrow> string" where
  "spec_rename modelName =
     (if modelName = ''user_report'' then ''user''
      else if modelName = ''users_segment'' then ''segment'' else modelName)"

definition spec_eventName :: "string \<Rightarrow> string" where
  "spec_eventName subj =
     (case split CHR '':'' subj of
        [] \<Rightarrow> []
      | [m] \<Rightarrow> spec_rename m
      | m # a # rest \<Rightarrow>
          (if spec_rename m = [] then a
           else if a = [] then spec_rename m
           else spec_rename m @ '':'' @ a))"

text \<open>A handler call that returns, and the promise it returns.\<close>

definition returns :: "'h env \<Rightarrow> handler_context \<Rightarrow> 'h \<times> notification \<Rightarrow> bool" where
  "returns env ctx call =
     (case run env (fst call) (snd call) ctx of Returns p \<Rightarrow> True | Throws e \<Rightarrow> False)"

definition promiseOf :: "'h env \<Rightarrow> handler_context \<Rightarrow> 'h \<times> notification \<Rightarrow> settle" where
  "promiseOf env ctx call =
     (case run env (fst call) (snd call) ctx of Returns p \<Rightarrow> p | Throws e \<Rightarrow> Never)"

text \<open>The calls of the handlers registered under \<^verbatim>\<open>user:update\<close> itself.\<close>

definition directCalls :: "'h registry \<Rightarrow> notification \<Rightarrow> ('h \<times> notification) list" where
  "directCalls handlers n =
     map (\<lambda>fn. (fn, n)) (case handlers ''user:update'' of None \<Rightarrow> [] | Some hs \<Rightarrow> hs)"

text \<open>The client \<^verbatim>\<open>enrichWithHullClient\<close> constructs from the query of a request.\<close>

definition tenant :: "request \<Rightarrow> client" where
  "tenant req =
     \<lparr>organization = str (config req ''organization''), id' = str (config req ''ship''),
      secret = str (config req ''secret'')\<rparr>"

text \<open>A result with one more warning in its log, and nothing else changed.\<close>

definition warn :: "jsval \<Rightarrow> ('h hull \<times> verdict) \<times> cache \<Rightarrow> ('h hull \<times> verdict) \<times> cache" where
  "warn msg r = (((fst (fst r))\<lparr>warned := warned (fst (fst r)) @ [msg]\<rparr>, snd (fst r)), snd r)"

section \<open>Sample inputs\<close>

text \<open>
  A world for concrete runs: \<^verbatim>\<open>JSON.parse\<close> on a few texts, a validator and handler
  behaviours to choose, a handshake that gets its response, fetches that yield an empty
  configuration object, the array members of ECMAScript 2015, and handlers named by strings.
\<close>

definition arrayMembers :: "string \<Rightarrow> bool" where
  "arrayMembers k =
     (objectPrototype k \<noteq> None
      \<or> k \<in> set [''concat'', ''copyWithin'', ''entries'', ''every'', ''fill'', ''filter'', ''find'',
                 ''findIndex'', ''forEach'', ''indexOf'', ''join'', ''keys'', ''lastIndexOf'', ''map'',
                 ''pop'', ''push'', ''reduce'', ''reduceRight'', ''reverse'', ''shift'', ''slice'',
                 ''some'', ''sort'', ''splice'', ''unshift'', ''values''])"

definition envelope :: "string \<Rightarrow> jsval" where
  "envelope subj =
     JObj [(''Type'', JStr ''Notification''), (''Subject'', JStr subj),
           (''Message'', JStr ''{}''), (''Timestamp'', JStr ''2016-11-02T10:00:00.000Z'')]"

definition orderText :: string where
  "orderText = ''{\"Type\":\"Notification\",\"Subject\":\"order:create\",\"Message\":\"{}\",\"Timestamp\":\"2016-11-02T10:00:00.000Z\"}''"

definition confirmation :: jsval where
  "confirmation =
     JObj [(''Type'', JStr ''SubscriptionConfirmation''),
           (''SubscribeURL'', JStr ''https://sns.us-east-1.amazonaws.com/?Action=ConfirmSubscription'')]"

definition confirmationText :: string where
  "confirmationText = ''{\"Type\":\"SubscriptionConfirmation\",\"SubscribeURL\":\"https://sns.us-east-1.amazonaws.com/?Action=ConfirmSubscription\"}''"

text \<open>An envelope of another type, with a certificate URL that has no path.\<close>

definition goodbye :: jsval where
  "goodbye =
     JObj [(''Type'', JStr ''UnsubscribeConfirmation''), (''SigningCertURL'', JStr ''https:'')]"

definition goodbyeText :: string where
  "goodbyeText = ''{\"Type\":\"UnsubscribeConfirmation\",\"SigningCertURL\":\"https:\"}''"

definition sampleParse :: "jsval \<Rightarrow> jsval option" where
  "sampleParse v =
     (if v = JStr ''{}'' then Some (JObj [])
      else if v = JStr ''[]'' then Some (JArr [])
      else if v = JStr ''null'' then Some JNull
      else if v = JStr orderText then Some (envelope ''order:create'')
      else if v = JStr confirmationText then Some confirmation
      else if v = JStr goodbyeText then Some goodbye
      else None)"

definition world :: "(jsval \<Rightarrow> validation) \<Rightarrow> (string \<Rightarrow> hresult) \<Rightarrow> string env" where
  "world validator behaviour =
     \<lparr>parse = sampleParse, validate = validator, handshake = (\<lambda>url. Responded),
      group = (\<lambda>user. user), fetch = (\<lambda>n. Ship (JObj [])), coerced_gt0 = (\<lambda>v. False),
      arrayMember = arrayMembers, run = (\<lambda>h n ctx. behaviour h)\<rparr>"

definition valid :: "jsval \<Rightarrow> validation" where
  "valid m = Valid"

text \<open>
  Handlers: one rejects at time 1, one throws when called, one rejects with \<^verbatim>\<open>null\<close>, one
  rejects with an error whose status is 0, any other fulfils at time 5.
\<close>

definition behaviours :: "string \<Rightarrow> hresult" where
  "behaviours h =
     (if h = ''failing'' then Returns (Rejects 1 (Reason ''boom'' None))
      else if h = ''throwing'' then Throws (Reason ''Error: thrown'' None)
      else if h = ''refusing'' then Returns (Rejects 1 Nullish)
      else if h = ''unavailable'' then Returns (Rejects 1 (Reason ''down'' (Some 0)))
      else Returns (Fulfils 5))"

definition received :: "string \<Rightarrow> jsval \<Rightarrow> notification" where
  "received subj payload =
     \<lparr>subject = JStr subj, message = payload,
      timestamp = DateOf (JStr ''2016-11-02T10:00:00.000Z'')\<rparr>"

definition userUpdate :: jsval where
  "userUpdate = JObj [(''user'', JObj [(''id'', JStr ''u1'')]),
                     (''events'', JArr [JStr ''viewed'', JStr ''clicked''])]"

definition arriving :: "jsval \<Rightarrow> string hull" where
  "arriving msg = newRequest\<lparr>hull_message := msg\<rparr>"

definition emptyCache :: cache where
  "emptyCache = \<lparr>entries = (\<lambda>k. None), len = 0, proto = True, fetches = []\<rparr>"

definition sampleQuery :: "string \<Rightarrow> request" where
  "sampleQuery raw =
     \<lparr>query = [''organization'' \<mapsto> QStr '' acme.hullapp.io'',
               ''ship'' \<mapsto> QList [''5103a55193e74e3a0e000005'', ''x''],
               ''secret'' \<mapsto> QStr ''s3cret''],
      body = Some raw\<rparr>"

definition defaults :: "string notif_options" where
  "defaults = \<lparr>opt_handlers = None, opt_onError = False, opt_onSubscribe = False,
               opt_groupTraits = JUndefined\<rparr>"

definition acme :: client where
  "acme = \<lparr>organization = ''acme.hullapp.io'', id' = ''5103a55193e74e3a0e000005'',
           secret = ''s3cret''\<rparr>"

definition afterFirst :: cache where
  "afterFirst = \<lparr>entries = [''5103a55193e74e3a0e000005'' \<mapsto> CFetch 0], len = 0, proto = True,
                 fetches = [(acme, ''5103a55193e74e3a0e000005'')]\<rparr>"


definition invalid :: "jsval \<Rightarrow> validation" where
  "invalid m = Invalid ''Error: The message signature is invalid.''"

text \<open>
  A validator that throws on an envelope whose certificate URL has no path, as one does that
  takes the end of that path without a check.
\<close>

definition fragile :: "jsval \<Rightarrow> validation" where
  "fragile m =
     (if getProp m ''SigningCertURL'' = JStr ''https:''
      then ValidatorThrows (typeError ''Cannot read property substr of null'')
      else Valid)"

definition strict :: options where
  "strict = \<lparr>onSubscribe = False, enforceValidation = True, groupTraits = True\<rparr>"

definition posted :: "string \<Rightarrow> request" where
  "posted raw = \<lparr>query = (\<lambda>k. None), body = Some raw\<rparr>"

text \<open>A request for the tenant whose ship id is \<^verbatim>\<open>length\<close>, and the client it is given.\<close>

definition lengthQuery :: "string \<Rightarrow> request" where
  "lengthQuery raw =
     \<lparr>query = [''organization'' \<mapsto> QStr ''acme.hullapp.io'', ''ship'' \<mapsto> QStr ''length'',
               ''secret'' \<mapsto> QStr ''s3cret''],
      body = Some raw\<rparr>"

definition lengthClient :: client where
  "lengthClient = \<lparr>organization = ''acme.hullapp.io'', id' = ''length'', secret = ''s3cret''\<rparr>"

section \<open>Event names and registration\<close>

lemma split_nonempty: "split c s \<noteq> []"
  by (induction s) (auto split: list.splits)

lemma ModelsMapping_plain:
  "objectPrototype m = None \<Longrightarrow>
   (if pieceTruthy (ModelsMapping m) then ModelsMapping m else PStr m) = PStr (spec_rename m)"
  by (auto simp: ModelsMapping_def spec_rename_def)

text \<open>
  On every subject whose model name is not the name of a member of \<^verbatim>\<open>Object.prototype\<close>,
  \<^verbatim>\<open>getHandlerName\<close> computes the event name of the specification.
\<close>

lemma getHandlerName_plain:
  assumes "objectPrototype (modelNameOf s) = None"
  shows "getHandlerName s = spec_eventName s"
proof (cases "split CHR '':'' s")
  case Nil
  then show ?thesis using split_nonempty by blast
next
  case (Cons m rest)
  then have m: "modelNameOf s = m" by (simp add: modelNameOf_def)
  have model: "(if pieceTruthy (ModelsMapping m) then ModelsMapping m else PStr m)
               = PStr (spec_rename m)"
    using ModelsMapping_plain assms m by simp
  show ?thesis
  proof (cases rest)
    case Nil
    with Cons have "actionOf s = PUndefined" by (simp add: actionOf_def)
    with Cons Nil m model show ?thesis
      by (simp add: getHandlerName_def spec_eventName_def compact_def Let_def)
  next
    case (Cons a rest')
    with \<open>split CHR '':'' s = m # rest\<close> have "actionOf s = PStr a" by (simp add: actionOf_def)
    with Cons \<open>split CHR '':'' s = m # rest\<close> m model show ?thesis
      by (simp add: getHandlerName_def spec_eventName_def compact_def Let_def)
  qed
qed

lemmas eventName_defs = getHandlerName_def modelNameOf_def actionOf_def ModelsMapping_def
  objectPrototype_def compact_def

lemma getHandlerName_examples:
  "getHandlerName ''user_report:update'' = ''user:update''"
  "getHandlerName ''users_segment:delete'' = ''segment:delete''"
  "getHandlerName ''widget:create'' = ''widget:create''"
  "getHandlerName ''widget'' = ''widget''"
  "getHandlerName ''user_report'' = ''user''"
  by (simp_all add: eventName_defs)

lemma getHandlerName_user_update: "getHandlerName ''user:update'' = ''user:update''"
  by (simp add: eventName_defs)

lemma getHandlerName_order_create: "getHandlerName ''order:create'' = ''order:create''"
  by (simp add: eventName_defs)

text \<open>
  C4. The event name is the subject's first two pieces, the first renamed by the table and
  every other model name unchanged, joined by a colon. The code departs from this where the
  model name is a name every object inherits: \<^verbatim>\<open>ModelsMapping['constructor']\<close> is the function
  \<^verbatim>\<open>Object\<close> and \<^verbatim>\<open>ModelsMapping['__proto__']\<close> is \<^verbatim>\<open>Object.prototype\<close>, both truthy, so they
  take the place of the model name and \<^verbatim>\<open>join\<close> writes them out. The specification's name
  for these subjects is the subject itself.
\<close>

theorem getHandlerName_inherited_name:
  "getHandlerName ''constructor:update'' = ''function Object() { [native code] }:update''
   \<and> spec_eventName ''constructor:update'' = ''constructor:update''
   \<and> getHandlerName ''__proto__:update'' = ''[object Object]:update''
   \<and> spec_eventName ''__proto__:update'' = ''__proto__:update''"
  by (simp add: eventName_defs spec_eventName_def spec_rename_def)

text \<open>
  Registration appends to the list under the canonical name, for every event name whose
  canonical name is not a member of \<^verbatim>\<open>Object.prototype\<close>.
\<close>

lemma addEventHandler_plain:
  assumes "objectPrototype (getHandlerName e) = None"
  shows "addEventHandler handlers e f =
         Inr (handlers(getHandlerName e \<mapsto>
                (case handlers (getHandlerName e) of None \<Rightarrow> [] | Some hs \<Rightarrow> hs) @ [f]))"
  using assms
  by (simp add: addEventHandler_def lookupHandlers_def Let_def split: option.splits)

lemma addEventHandler_same_list:
  "addEventHandlers (\<lambda>k. None) [(''user_report:update'', f), (''user:update'', g)]
     = Inr [''user:update'' \<mapsto> [f, g]]"
  by (simp add: addEventHandler_def lookupHandlers_def getHandlerName_examples
      getHandlerName_user_update objectPrototype_def)

text \<open>
  C10. \<^verbatim>\<open>addEventHandler(e, f)\<close> appends \<open>f\<close> to the list under \<^verbatim>\<open>getHandlerName(e)\<close>. The code
  departs from this where the canonical name is a name every object inherits: for
  \<^verbatim>\<open>':toString'\<close> the name is \<^verbatim>\<open>toString\<close>, \<^verbatim>\<open>_handlers['toString']\<close> is the inherited function,
  no array is created and \<^verbatim>\<open>push\<close> throws; nothing is registered.
\<close>

theorem addEventHandler_inherited_name:
  "getHandlerName '':toString'' = ''toString''
   \<and> addEventHandler (\<lambda>k. None) '':toString'' ''handler''
       = Inl (typeError ''_handlers[eventName].push is not a function'')"
  by (simp add: addEventHandler_def lookupHandlers_def eventName_defs)

section \<open>Dispatch: the calls that are made\<close>

lemma callHandler_returns:
  "thrown r = None \<Longrightarrow> returns env ctx call \<Longrightarrow>
   callHandler env ctx r call
     = r\<lparr>started := started r @ [call], processing := processing r @ [promiseOf env ctx call]\<rparr>"
  by (simp add: callHandler_def returns_def promiseOf_def split: hresult.splits)

lemma invokeEach_returns:
  "thrown r = None \<Longrightarrow> \<forall>call\<in>set calls. returns env ctx call \<Longrightarrow>
   invokeEach env ctx calls r =
     r\<lparr>started := started r @ calls, processing := processing r @ map (promiseOf env ctx) calls\<rparr>"
proof (induction calls arbitrary: r)
  case Nil
  then show ?case by (simp add: invokeEach_def)
next
  case (Cons call calls)
  let ?r = "r\<lparr>started := started r @ [call],
             processing := processing r @ [promiseOf env ctx call]\<rparr>"
  have step: "callHandler env ctx r call = ?r"
    using Cons.prems by (simp add: callHandler_returns)
  have "invokeEach env ctx (call # calls) r = invokeEach env ctx calls ?r"
    using step by (simp add: invokeEach_def)
  also have "\<dots> = ?r\<lparr>started := started ?r @ calls,
                      processing := processing ?r @ map (promiseOf env ctx) calls\<rparr>"
    using Cons.prems by (intro Cons.IH) simp_all
  finally show ?case by simp
qed

lemma length_eventCalls: "length (eventCalls msg payload es hs) = length es * length hs"
  by (induction es) (simp_all add: eventCalls_def)

lemma nth_eventCalls:
  "i < length es \<Longrightarrow> j < length hs \<Longrightarrow>
   eventCalls msg payload es hs ! (i * length hs + j) = (hs ! j, eventPayload msg payload (es ! i))"
proof (induction es arbitrary: i)
  case Nil
  then show ?case by simp
next
  case (Cons e es)
  show ?case
  proof (cases i)
    case 0
    with Cons.prems show ?thesis by (simp add: eventCalls_def nth_append)
  next
    case (Suc k)
    with Cons.prems have k: "k < length es" by simp
    have "eventCalls msg payload (e # es) hs ! (i * length hs + j)
          = eventCalls msg payload es hs ! (k * length hs + j)"
      using Suc by (simp add: eventCalls_def nth_append)
    with Cons.IH[OF k Cons.prems(2)] Suc show ?thesis by simp
  qed
qed

lemma events_payload_truthy: "getProp payload ''events'' = JArr es \<Longrightarrow> truthy payload"
  by (cases payload) simp_all

lemma user_update_not_inherited: "objectPrototype ''user:update'' = None"
  by (simp add: objectPrototype_def)

lemma started_fanout:
  assumes subj: "getProp (hull_message st) ''Subject'' = JStr s"
    and name: "getHandlerName s = ''user:update''"
    and evs: "getProp (message n) ''events'' = JArr es"
    and quiet: "\<forall>call \<in> set (directCalls handlers n
                              @ eventCalls (hull_message st) (message n) es (eventHandlers handlers)).
                  returns env \<lparr>ctx_ship = hull_ship st, ctx_hull = hull_client st\<rparr> call"
  shows "started (dispatch env handlers st n)
           = directCalls handlers n
             @ eventCalls (hull_message st) (message n) es (eventHandlers handlers)"
proof -
  let ?r0 = "\<lparr>started = [], processing = [], thrown = None\<rparr> :: 'a run"
  let ?ctx = "\<lparr>ctx_ship = hull_ship st, ctx_hull = hull_client st\<rparr>"
  let ?hs = "eventHandlers handlers"
  let ?r1 = "?r0\<lparr>started := directCalls handlers n,
                  processing := map (promiseOf env ?ctx) (directCalls handlers n)\<rparr>"
  have mh: "messageHandlers handlers ''user:update''
            = Inr (case handlers ''user:update'' of None \<Rightarrow> [] | Some hs \<Rightarrow> hs)"
    by (simp add: messageHandlers_def lookupHandlers_def user_update_not_inherited
        split: option.splits)
  have r1: "invokeEach env ?ctx (directCalls handlers n) ?r0 = ?r1"
    using quiet by (subst invokeEach_returns) simp_all
  have ee: "eventEntries (coerced_gt0 env) (message n) = Inr es"
    using evs by (simp add: eventEntries_def)
  show ?thesis
  proof (cases "?hs = []")
    case True
    then show ?thesis using subj name mh r1
      by (simp add: dispatch_def Let_def directCalls_def eventCalls_def)
  next
    case False
    have "invokeEach env ?ctx (eventCalls (hull_message st) (message n) es ?hs) ?r1
          = ?r1\<lparr>started := started ?r1 @ eventCalls (hull_message st) (message n) es ?hs,
                processing := processing ?r1
                  @ map (promiseOf env ?ctx) (eventCalls (hull_message st) (message n) es ?hs)\<rparr>"
      using quiet by (subst invokeEach_returns) simp_all
    then show ?thesis using False subj name mh r1 ee events_payload_truthy[OF evs]
      by (simp add: dispatch_def Let_def directCalls_def)
  qed
qed

text \<open>
  The timestamp of a synthesized notification is \<^verbatim>\<open>message.Timestamp\<close>, the field of the
  envelope as it was received, where the notification itself carries
  \<^verbatim>\<open>new Date(message.Timestamp)\<close> (set in \<^verbatim>\<open>verifySignature\<close>): the two are never the same value.
\<close>

lemma synthesized_timestamp:
  "timestamp (eventPayload msg payload event) = Raw (getProp msg ''Timestamp'')
   \<and> Raw (getProp msg ''Timestamp'') \<noteq> DateOf (getProp msg ''Timestamp'')"
  by (simp add: eventPayload_def)

text \<open>
  C2, as amended. Let the canonical event name of a notification be \<^verbatim>\<open>user:update\<close>, its
  payload hold an \<^verbatim>\<open>events\<close> list of N entries, and M handlers be registered under \<^verbatim>\<open>event\<close>.
  Provided no handler call throws, the calls made are those of the handlers registered under
  \<^verbatim>\<open>user:update\<close> followed by exactly N times M synthesized calls, one per pair of an event
  entry and a handler, entry by entry. Each synthesized call receives the subject \<^verbatim>\<open>event\<close>
  and the payload \<^verbatim>\<open>{user, segments, event}\<close>, with \<^verbatim>\<open>segments\<close> the empty list when the
  original payload has none. Nothing is stated of the timestamp.
\<close>

theorem event_fanout:
  assumes subj: "getProp (hull_message st) ''Subject'' = JStr s"
    and name: "getHandlerName s = ''user:update''"
    and evs: "getProp (message n) ''events'' = JArr es"
    and hs: "eventHandlers handlers = hs"
    and quiet: "\<forall>call \<in> set (directCalls handlers n
                              @ eventCalls (hull_message st) (message n) es hs).
                  returns env \<lparr>ctx_ship = hull_ship st, ctx_hull = hull_client st\<rparr> call"
  shows "started (dispatch env handlers st n)
           = directCalls handlers n @ eventCalls (hull_message st) (message n) es hs
       \<and> length (eventCalls (hull_message st) (message n) es hs) = length es * length hs
       \<and> (\<forall>i < length es. \<forall>j < length hs.
            fst (eventCalls (hull_message st) (message n) es hs ! (i * length hs + j)) = hs ! j
            \<and> subject (snd (eventCalls (hull_message st) (message n) es hs ! (i * length hs + j)))
                = JStr ''event''
            \<and> message (snd (eventCalls (hull_message st) (message n) es hs ! (i * length hs + j)))
                = JObj [(''user'', getProp (message n) ''user''),
                        (''segments'', (case getProp (message n) ''segments'' of
                                          JUndefined \<Rightarrow> JArr [] | v \<Rightarrow> v)),
                        (''event'', es ! i)])"
proof -
  have "started (dispatch env handlers st n)
           = directCalls handlers n @ eventCalls (hull_message st) (message n) es hs"
    using started_fanout[OF subj name evs] quiet hs by simp
  moreover have "length (eventCalls (hull_message st) (message n) es hs) = length es * length hs"
    by (rule length_eventCalls)
  moreover have "\<forall>i < length es. \<forall>j < length hs.
            fst (eventCalls (hull_message st) (message n) es hs ! (i * length hs + j)) = hs ! j
            \<and> subject (snd (eventCalls (hull_message st) (message n) es hs ! (i * length hs + j)))
                = JStr ''event''
            \<and> message (snd (eventCalls (hull_message st) (message n) es hs ! (i * length hs + j)))
                = JObj [(''user'', getProp (message n) ''user''),
                        (''segments'', (case getProp (message n) ''segments'' of
                                          JUndefined \<Rightarrow> JArr [] | v \<Rightarrow> v)),
                        (''event'', es ! i)]"
    using nth_eventCalls[of _ es _ hs "hull_message st" "message n"]
    by (simp add: eventPayload_def)
  ultimately show ?thesis by simp
qed

lemmas sample_defs = world_def behaviours_def valid_def envelope_def received_def userUpdate_def
  arriving_def newRequest_def

text \<open>
  A \<^verbatim>\<open>user_report:update\<close> notification with two events, one handler under \<^verbatim>\<open>user:update\<close>
  and two under \<^verbatim>\<open>event\<close>: five calls.
\<close>

theorem event_fanout_witness:
  "getProp (hull_message (arriving (envelope ''user_report:update''))) ''Subject''
     = JStr ''user_report:update''
   \<and> getHandlerName ''user_report:update'' = ''user:update''
   \<and> getProp (message (received ''user_report:update'' userUpdate)) ''events''
       = JArr [JStr ''viewed'', JStr ''clicked'']
   \<and> eventHandlers [''user:update'' \<mapsto> [''direct''], ''event'' \<mapsto> [''first'', ''second'']]
       = [''first'', ''second'']
   \<and> started (dispatch (world valid behaviours)
                [''user:update'' \<mapsto> [''direct''], ''event'' \<mapsto> [''first'', ''second'']]
                (arriving (envelope ''user_report:update''))
                (received ''user_report:update'' userUpdate))
       = [(''direct'', received ''user_report:update'' userUpdate),
          (''first'', eventPayload (envelope ''user_report:update'') userUpdate (JStr ''viewed'')),
          (''second'', eventPayload (envelope ''user_report:update'') userUpdate (JStr ''viewed'')),
          (''first'', eventPayload (envelope ''user_report:update'') userUpdate (JStr ''clicked'')),
          (''second'', eventPayload (envelope ''user_report:update'') userUpdate (JStr ''clicked''))]
   \<and> subject (eventPayload (envelope ''user_report:update'') userUpdate (JStr ''clicked''))
       = JStr ''event''
   \<and> message (eventPayload (envelope ''user_report:update'') userUpdate (JStr ''clicked''))
       = JObj [(''user'', JObj [(''id'', JStr ''u1'')]), (''segments'', JArr []),
               (''event'', JStr ''clicked'')]"
proof -
  let ?st = "arriving (envelope ''user_report:update'')"
  let ?n = "received ''user_report:update'' userUpdate"
  let ?H = "[''user:update'' \<mapsto> [''direct''], ''event'' \<mapsto> [''first'', ''second'']]"
  have subj: "getProp (hull_message ?st) ''Subject'' = JStr ''user_report:update''"
    by (simp add: sample_defs)
  have name: "getHandlerName ''user_report:update'' = ''user:update''"
    by (simp add: getHandlerName_examples)
  have evs: "getProp (message ?n) ''events'' = JArr [JStr ''viewed'', JStr ''clicked'']"
    by (simp add: sample_defs)
  have hs: "eventHandlers ?H = [''first'', ''second'']"
    by (simp add: eventHandlers_def)
  have quiet: "\<forall>call \<in> set (directCalls ?H ?n
                  @ eventCalls (hull_message ?st) (message ?n) [JStr ''viewed'', JStr ''clicked'']
                      [''first'', ''second'']).
                 returns (world valid behaviours)
                   \<lparr>ctx_ship = hull_ship ?st, ctx_hull = hull_client ?st\<rparr> call"
    by (simp add: directCalls_def eventCalls_def returns_def world_def behaviours_def)
  have "started (dispatch (world valid behaviours) ?H ?st ?n)
          = directCalls ?H ?n
            @ eventCalls (hull_message ?st) (message ?n) [JStr ''viewed'', JStr ''clicked'']
                [''first'', ''second'']"
    using event_fanout[OF subj name evs hs quiet] by blast
  then have calls: "started (dispatch (world valid behaviours) ?H ?st ?n)
       = [(''direct'', ?n),
          (''first'', eventPayload (envelope ''user_report:update'') userUpdate (JStr ''viewed'')),
          (''second'', eventPayload (envelope ''user_report:update'') userUpdate (JStr ''viewed'')),
          (''first'', eventPayload (envelope ''user_report:update'') userUpdate (JStr ''clicked'')),
          (''second'', eventPayload (envelope ''user_report:update'') userUpdate (JStr ''clicked''))]"
    by (simp add: directCalls_def eventCalls_def arriving_def newRequest_def received_def)
  have payload: "subject (eventPayload (envelope ''user_report:update'') userUpdate (JStr ''clicked''))
       = JStr ''event''
   \<and> message (eventPayload (envelope ''user_report:update'') userUpdate (JStr ''clicked''))
       = JObj [(''user'', JObj [(''id'', JStr ''u1'')]), (''segments'', JArr []),
               (''event'', JStr ''clicked'')]"
    by (simp add: eventPayload_def userUpdate_def)
  from subj name evs hs calls payload show ?thesis by simp
qed

text \<open>
  Without the proviso the count fails: a handler that throws ends the dispatch (the
  \<^verbatim>\<open>catch\<close> answers 500). With two events and two handlers under \<^verbatim>\<open>event\<close>, the first of
  which throws, one synthesized call is made, not four. And the timestamp that call receives
  is not the one of the original notification: it is the text of the envelope's \<^verbatim>\<open>Timestamp\<close>,
  where the notification has the date made from it.
\<close>

theorem event_fanout_cut_short:
  "getProp (hull_message (arriving (envelope ''user_report:update''))) ''Subject''
     = JStr ''user_report:update''
   \<and> getHandlerName ''user_report:update'' = ''user:update''
   \<and> getProp (message (received ''user_report:update'' userUpdate)) ''events''
       = JArr [JStr ''viewed'', JStr ''clicked'']
   \<and> eventHandlers [''event'' \<mapsto> [''throwing'', ''second'']] = [''throwing'', ''second'']
   \<and> started (dispatch (world valid behaviours) [''event'' \<mapsto> [''throwing'', ''second'']]
                (arriving (envelope ''user_report:update''))
                (received ''user_report:update'' userUpdate))
       = [(''throwing'', eventPayload (envelope ''user_report:update'') userUpdate (JStr ''viewed''))]
   \<and> timestamp (eventPayload (envelope ''user_report:update'') userUpdate (JStr ''viewed''))
       = Raw (JStr ''2016-11-02T10:00:00.000Z'')
   \<and> timestamp (received ''user_report:update'' userUpdate)
       = DateOf (JStr ''2016-11-02T10:00:00.000Z'')"
  by (simp add: dispatch_def messageHandlers_def lookupHandlers_def objectPrototype_def
      getHandlerName_examples eventHandlers_def eventEntries_def eventCalls_def invokeEach_def
      callHandler_def sample_defs Let_def eventPayload_def)

section \<open>Dispatch: the outcome\<close>










lemmas case_congs = option.case_cong_weak validation.case_cong_weak if_weak_cong
  jsval.case_cong_weak sum.case_cong_weak hresult.case_cong_weak fetched.case_cong_weak
  cell.case_cong_weak prod.case_cong_weak reason.case_cong_weak verdict.case_cong_weak

section \<open>Normalised query parameters\<close>

lemma configure_other: "k' \<noteq> k \<Longrightarrow> configure req cfg k k' = cfg k'"
  by (simp add: configure_def Let_def split: option.splits qval.splits list.splits)

lemma configure_same:
  "cfg k = None \<Longrightarrow>
   configure req cfg k k
     = (case query req k of
          Some (QStr val) \<Rightarrow> Some (trim val)
        | Some (QList (v # vs)) \<Rightarrow> Some (trim v)
        | _ \<Rightarrow> None)"
  by (simp add: configure_def Let_def split: option.splits qval.splits list.splits)

text \<open>
  After the three rounds each of the three keys holds the value of its query parameter, or of
  the first element when that is a list, trimmed; it is unset when the parameter is absent
  or an empty list.
\<close>

lemma config_key:
  assumes "k \<in> set [''organization'', ''ship'', ''secret'']"
  shows "config req k
         = (case query req k of
              Some (QStr val) \<Rightarrow> Some (trim val)
            | Some (QList (v # vs)) \<Rightarrow> Some (trim v)
            | _ \<Rightarrow> None)"
proof -
  let ?c0 = "\<lambda>k. None :: string option"
  let ?c1 = "configure req ?c0 ''organization''"
  let ?c2 = "configure req ?c1 ''ship''"
  have unfold: "config req = configure req ?c2 ''secret''" by (simp add: config_def)
  consider "k = ''organization''" | "k = ''ship''" | "k = ''secret''" using assms by auto
  then show ?thesis
  proof cases
    case 1
    then show ?thesis unfolding unfold by (simp add: configure_other configure_same)
  next
    case 2
    then show ?thesis unfolding unfold by (simp add: configure_other configure_same)
  next
    case 3
    then show ?thesis unfolding unfold by (simp add: configure_other configure_same)
  qed
qed

lemma config_posted: "config (posted raw) k = None"
  by (simp add: config_def configure_def posted_def)






lemma dropWhile_keep: "xs \<noteq> [] \<Longrightarrow> \<not> P (hd xs) \<Longrightarrow> dropWhile P xs = xs"
  by (cases xs) simp_all

lemma trim_unpadded:
  assumes "s \<noteq> []" "\<not> isSpace (hd s)" "\<not> isSpace (last s)"
  shows "trim s = s"
proof -
  have a: "dropWhile isSpace s = s" using assms by (simp add: dropWhile_keep)
  have "hd (rev s) = last s" using assms(1) by (simp add: hd_rev)
  then have "dropWhile isSpace (rev s) = rev s" using assms by (simp add: dropWhile_keep)
  with a show ?thesis by (simp add: trim_def)
qed



section \<open>The tenant cache\<close>

lemma store_twice: "store (store c k v) k v = store c k v"
  by (simp add: store_def split: option.splits)

lemma cacheRead_store:
  "k \<noteq> ''length'' \<Longrightarrow> cacheRead members (store c k v) k = v"
  by (simp add: cacheRead_def store_def)

lemma fetches_store: "fetches (store c k v) = fetches c"
  by (simp add: store_def)

lemma fetches_assignNull: "fetches (assignNull c k) = fetches c"
  by (simp add: assignNull_def store_def)

lemma fetches_assignBack: "fetches (assignBack c k v) = fetches c"
  by (simp add: assignBack_def store_def)

lemma cacheRead_fetch_stored:
  "k \<noteq> ''length'' \<Longrightarrow> cacheRead members c k = CFetch p \<Longrightarrow> entries c k = Some (CFetch p)"
  by (auto simp: cacheRead_def split: option.splits if_splits)

text \<open>A stored fetch is returned, and no fetch is started.\<close>

lemma getCurrentShip_hit:
  assumes "shipId \<noteq> ''length''" and "cacheRead members c shipId = CFetch p"
  shows "getCurrentShip members c shipId cl False = (Inr (CFetch p), store c shipId (CFetch p))"
  using assms cacheRead_fetch_stored[OF assms]
  by (simp add: getCurrentShip_def Let_def assignBack_def)

lemma cacheRead_assignNull: "\<not> cellTruthy (cacheRead members (assignNull c k) k)"
  by (auto simp: cacheRead_def assignNull_def store_def)

text \<open>A forced resolution starts exactly one fetch, whatever is stored and whatever the key.\<close>

lemma getCurrentShip_forced_fetches:
  "fetches (snd (getCurrentShip members c shipId cl True)) = fetches c @ [(cl, shipId)]"
  using cacheRead_assignNull[of members c shipId]
  by (simp add: getCurrentShip_def Let_def fetches_assignNull fetches_store)

lemma getCurrentShip_forced:
  assumes "shipId \<noteq> ''length''"
  shows "fst (getCurrentShip members c shipId cl True) = Inr (CFetch (length (fetches c)))
         \<and> cacheRead members (snd (getCurrentShip members c shipId cl True)) shipId
             = CFetch (length (fetches c))"
  using assms cacheRead_assignNull[of members c shipId]
  by (simp add: getCurrentShip_def Let_def fetches_assignNull cacheRead_store)

text \<open>A resolution that reads nothing truthy starts a fetch; under \<^verbatim>\<open>length\<close> it then throws
  and stores nothing.\<close>

lemma getCurrentShip_miss:
  assumes "\<not> cellTruthy (cacheRead members c shipId)"
  shows "fetches (snd (getCurrentShip members c shipId cl False)) = fetches c @ [(cl, shipId)]"
    and "shipId \<noteq> ''length'' \<Longrightarrow>
         fst (getCurrentShip members c shipId cl False) = Inr (CFetch (length (fetches c)))"
    and "shipId = ''length'' \<Longrightarrow>
         getCurrentShip members c shipId cl False
           = (Inl rangeError, c\<lparr>fetches := fetches c @ [(cl, shipId)]\<rparr>)"
  using assms by (simp_all add: getCurrentShip_def Let_def fetches_store)

text \<open>Of two resolutions that are not forced, for a key other than \<^verbatim>\<open>length\<close>, the second
  returns what the first returned and changes nothing.\<close>

lemma getCurrentShip_twice:
  assumes plain: "shipId \<noteq> ''length''"
  shows "\<exists>v1 c1. getCurrentShip members c shipId cl1 False = (Inr v1, c1)
           \<and> getCurrentShip members c1 shipId cl2 False = (Inr v1, c1)
           \<and> length (fetches c1) \<le> Suc (length (fetches c))"
proof (cases "cellTruthy (cacheRead members c shipId)")
  case True
  let ?v = "cacheRead members c shipId"
  show ?thesis
  proof (cases "shipId = ''__proto__'' \<and> entries c shipId = None \<and> proto c")
    case inherited: True
    from inherited have "assignBack c shipId ?v = c" by (auto simp: assignBack_def)
    with True have "getCurrentShip members c shipId cl False = (Inr ?v, c)" for cl
      by (simp add: getCurrentShip_def Let_def)
    then show ?thesis by simp
  next
    case own: False
    with True plain have first: "getCurrentShip members c shipId cl1 False
        = (Inr ?v, store c shipId ?v)"
      by (auto simp: getCurrentShip_def Let_def assignBack_def)
    have r: "cacheRead members (store c shipId ?v) shipId = ?v"
      using plain by (rule cacheRead_store)
    have "entries (store c shipId ?v) shipId \<noteq> None" by (simp add: store_def)
    with True plain r have "getCurrentShip members (store c shipId ?v) shipId cl2 False
        = (Inr ?v, store c shipId ?v)"
      by (simp add: getCurrentShip_def Let_def assignBack_def store_twice)
    with first show ?thesis by (simp add: fetches_store)
  qed
next
  case False
  let ?p = "CFetch (length (fetches c))"
  let ?c1 = "store (c\<lparr>fetches := fetches c @ [(cl1, shipId)]\<rparr>) shipId ?p"
  from False plain have first: "getCurrentShip members c shipId cl1 False = (Inr ?p, ?c1)"
    by (simp add: getCurrentShip_def Let_def)
  have r: "cacheRead members ?c1 shipId = ?p" using plain by (rule cacheRead_store)
  have "entries ?c1 shipId \<noteq> None" by (simp add: store_def)
  with plain r have "getCurrentShip members ?c1 shipId cl2 False = (Inr ?p, ?c1)"
    by (simp add: getCurrentShip_def Let_def assignBack_def store_twice)
  with first show ?thesis by (simp add: fetches_store)
qed

subsection \<open>The middleware\<close>

lemma enrich_skipped:
  "\<not> (present (config req ''organization'') \<and> present (config req ''ship'')
      \<and> present (config req ''secret''))
   \<Longrightarrow> enrichWithHullClient env c req st = ((st, Continue), c)"
  unfolding enrichWithHullClient_def by (rule if_not_P)

lemma enrich_resolves:
  assumes "present (config req ''organization'')" "present (config req ''ship'')"
    "present (config req ''secret'')"
  shows "enrichWithHullClient env c req st
         = (case getCurrentShip (arrayMember env) c (str (config req ''ship'')) (tenant req)
                  (forceShipUpdate st) of
              (Inl e, c') \<Rightarrow> ((st\<lparr>hull_client := Some (tenant req)\<rparr>, Escaped), c')
            | (Inr (CFetch n), c') \<Rightarrow>
                (case fetch env n of
                   Ship s \<Rightarrow> ((st\<lparr>hull_client := Some (tenant req), hull_ship := s\<rparr>, Continue), c')
                 | FetchFails Nullish \<Rightarrow> ((st\<lparr>hull_client := Some (tenant req)\<rparr>, Uncaught), c')
                 | FetchFails (Reason m sc) \<Rightarrow>
                     (handleError (st\<lparr>hull_client := Some (tenant req)\<rparr>) m 400, c')
                 | FetchPending \<Rightarrow> ((st\<lparr>hull_client := Some (tenant req)\<rparr>, Stalled), c'))
            | (Inr other, c') \<Rightarrow> ((st\<lparr>hull_client := Some (tenant req)\<rparr>, Escaped), c'))"
  using assms by (simp add: enrichWithHullClient_def Let_def tenant_def cong del: case_congs)


lemma enrich_fetches:
  assumes "present (config req ''organization'')" "present (config req ''ship'')"
    "present (config req ''secret'')"
  shows "fetches (snd (enrichWithHullClient env c req st))
         = fetches (snd (getCurrentShip (arrayMember env) c (str (config req ''ship''))
                           (tenant req) (forceShipUpdate st)))"
  unfolding enrich_resolves[OF assms]
  by (simp split: fetched.splits reason.splits cell.splits sum.splits prod.splits)


text \<open>
  When the resolution is forced or reads nothing truthy, one fetch is started for the ship
  id, with the client just constructed; for an id other than \<^verbatim>\<open>length\<close> the request goes the
  way that fetch settles.
\<close>

lemma enrich_fetch:
  assumes all: "present (config req ''organization'')" "present (config req ''ship'')"
    "present (config req ''secret'')"
    and miss: "forceShipUpdate st
               \<or> \<not> cellTruthy (cacheRead (arrayMember env) c (str (config req ''ship'')))"
  shows "fetches (snd (enrichWithHullClient env c req st))
           = fetches c @ [(tenant req, str (config req ''ship''))]"
    and "str (config req ''ship'') \<noteq> ''length'' \<Longrightarrow>
         fst (enrichWithHullClient env c req st)
           = (case fetch env (length (fetches c)) of
                Ship s \<Rightarrow> (st\<lparr>hull_client := Some (tenant req), hull_ship := s\<rparr>, Continue)
              | FetchFails Nullish \<Rightarrow> (st\<lparr>hull_client := Some (tenant req)\<rparr>, Uncaught)
              | FetchFails (Reason m sc) \<Rightarrow>
                  handleError (st\<lparr>hull_client := Some (tenant req)\<rparr>) m 400
              | FetchPending \<Rightarrow> (st\<lparr>hull_client := Some (tenant req)\<rparr>, Stalled))"
    and "str (config req ''ship'') = ''length'' \<Longrightarrow>
         fst (enrichWithHullClient env c req st)
           = (st\<lparr>hull_client := Some (tenant req)\<rparr>, Escaped)"
proof -
  let ?id = "str (config req ''ship'')"
  let ?g = "getCurrentShip (arrayMember env) c ?id (tenant req) (forceShipUpdate st)"
  have f: "fetches (snd ?g) = fetches c @ [(tenant req, ?id)]"
  proof (cases "forceShipUpdate st")
    case True
    then show ?thesis by (simp add: getCurrentShip_forced_fetches)
  next
    case False
    with miss show ?thesis by (simp add: getCurrentShip_miss(1))
  qed
  show "fetches (snd (enrichWithHullClient env c req st)) = fetches c @ [(tenant req, ?id)]"
    unfolding enrich_fetches[OF all] by (rule f)
  have v: "fst ?g = Inr (CFetch (length (fetches c)))" if "?id \<noteq> ''length''"
  proof (cases "forceShipUpdate st")
    case True
    then show ?thesis using getCurrentShip_forced[OF that] by simp
  next
    case False
    with miss show ?thesis using getCurrentShip_miss(2)[OF _ that] by simp
  qed
  show "fst (enrichWithHullClient env c req st)
           = (case fetch env (length (fetches c)) of
                Ship s \<Rightarrow> (st\<lparr>hull_client := Some (tenant req), hull_ship := s\<rparr>, Continue)
              | FetchFails Nullish \<Rightarrow> (st\<lparr>hull_client := Some (tenant req)\<rparr>, Uncaught)
              | FetchFails (Reason m sc) \<Rightarrow>
                  handleError (st\<lparr>hull_client := Some (tenant req)\<rparr>) m 400
              | FetchPending \<Rightarrow> (st\<lparr>hull_client := Some (tenant req)\<rparr>, Stalled))"
    if plain: "?id \<noteq> ''length''"
  proof -
    obtain c' where "?g = (Inr (CFetch (length (fetches c))), c')"
      using v[OF plain] by (cases ?g) simp
    then show ?thesis unfolding enrich_resolves[OF all]
      by (simp split: fetched.splits reason.splits)
  qed
  show "fst (enrichWithHullClient env c req st) = (st\<lparr>hull_client := Some (tenant req)\<rparr>, Escaped)"
    if l: "?id = ''length''"
  proof -
    have "fst ?g = Inl rangeError"
    proof (cases "forceShipUpdate st")
      case True
      have "\<not> cellTruthy (cacheRead (arrayMember env) (assignNull c ?id) ?id)"
        by (rule cacheRead_assignNull)
      with True l show ?thesis by (simp add: getCurrentShip_def Let_def)
    next
      case False
      with miss have "\<not> cellTruthy (cacheRead (arrayMember env) c ?id)" by simp
      from getCurrentShip_miss(3)[OF this l] False show ?thesis by simp
    qed
    then obtain c' where "?g = (Inl rangeError, c')" by (cases ?g) simp
    then show ?thesis unfolding enrich_resolves[OF all] by simp
  qed
qed

text \<open>A request that does not force the resolution and finds a stored fetch starts none and
  goes the way the stored fetch settles.\<close>

lemma enrich_hit:
  assumes all: "present (config req ''organization'')" "present (config req ''ship'')"
    "present (config req ''secret'')"
    and plain: "str (config req ''ship'') \<noteq> ''length''"
    and unforced: "\<not> forceShipUpdate st"
    and stored: "cacheRead (arrayMember env) c (str (config req ''ship'')) = CFetch p"
  shows "fetches (snd (enrichWithHullClient env c req st)) = fetches c"
    and "fst (enrichWithHullClient env c req st)
           = (case fetch env p of
                Ship s \<Rightarrow> (st\<lparr>hull_client := Some (tenant req), hull_ship := s\<rparr>, Continue)
              | FetchFails Nullish \<Rightarrow> (st\<lparr>hull_client := Some (tenant req)\<rparr>, Uncaught)
              | FetchFails (Reason m sc) \<Rightarrow>
                  handleError (st\<lparr>hull_client := Some (tenant req)\<rparr>) m 400
              | FetchPending \<Rightarrow> (st\<lparr>hull_client := Some (tenant req)\<rparr>, Stalled))"
  unfolding enrich_resolves[OF all] using unforced getCurrentShip_hit[OF plain stored]
  by (simp_all add: fetches_store split: fetched.splits reason.splits)

text \<open>
  For every ship id other than \<^verbatim>\<open>length\<close> the cache coalesces: a resolution that is not
  forced and finds a stored fetch starts no fetch and returns the stored one; of two
  resolutions that are not forced the second returns what the first returned and starts no
  fetch, so that both together start at most one; a forced resolution starts exactly one
  new fetch, whatever was stored, and stores and returns it. In the middleware the resolution
  is forced exactly for an envelope whose subject is \<^verbatim>\<open>ship:update\<close>.
\<close>

lemma cache_coalesces_other_ids:
  assumes "shipId \<noteq> ''length''"
  shows "(\<forall>p. cacheRead members c shipId = CFetch p \<longrightarrow>
           (\<exists>c'. getCurrentShip members c shipId cl False = (Inr (CFetch p), c')
                 \<and> fetches c' = fetches c \<and> cacheRead members c' shipId = CFetch p))
       \<and> (\<exists>v1 c1. getCurrentShip members c shipId cl False = (Inr v1, c1)
             \<and> getCurrentShip members c1 shipId cl2 False = (Inr v1, c1)
             \<and> length (fetches c1) \<le> Suc (length (fetches c)))
       \<and> (\<exists>c'. getCurrentShip members c shipId cl True = (Inr (CFetch (length (fetches c))), c')
                 \<and> fetches c' = fetches c @ [(cl, shipId)]
                 \<and> cacheRead members c' shipId = CFetch (length (fetches c)))
       \<and> (\<forall>(env :: 'h env) req (st :: 'h hull).
             present (config req ''organization'') \<and> present (config req ''ship'')
             \<and> present (config req ''secret'') \<and> str (config req ''ship'') = shipId \<longrightarrow>
               (truthy (hull_message st)
                  \<and> getProp (hull_message st) ''Subject'' = JStr ''ship:update'' \<longrightarrow>
                  fetches (snd (enrichWithHullClient env c req st))
                    = fetches c @ [(tenant req, shipId)])
               \<and> (getProp (hull_message st) ''Subject'' \<noteq> JStr ''ship:update'' \<longrightarrow>
                    (\<forall>p. cacheRead (arrayMember env) c shipId = CFetch p \<longrightarrow>
                       fetches (snd (enrichWithHullClient env c req st)) = fetches c)))"
proof -
  have one: "\<exists>c'. getCurrentShip members c shipId cl False = (Inr (CFetch p), c')
                 \<and> fetches c' = fetches c \<and> cacheRead members c' shipId = CFetch p"
    if p: "cacheRead members c shipId = CFetch p" for p
    using getCurrentShip_hit[OF assms p] assms by (simp add: fetches_store cacheRead_store)
  have two: "\<exists>v1 c1. getCurrentShip members c shipId cl False = (Inr v1, c1)
             \<and> getCurrentShip members c1 shipId cl2 False = (Inr v1, c1)
             \<and> length (fetches c1) \<le> Suc (length (fetches c))"
    using assms by (rule getCurrentShip_twice)
  have three: "\<exists>c'. getCurrentShip members c shipId cl True
                        = (Inr (CFetch (length (fetches c))), c')
                 \<and> fetches c' = fetches c @ [(cl, shipId)]
                 \<and> cacheRead members c' shipId = CFetch (length (fetches c))"
    using getCurrentShip_forced[OF assms, of members c cl]
      getCurrentShip_forced_fetches[of members c shipId cl]
    by (cases "getCurrentShip members c shipId cl True") simp
  have four: "(truthy (hull_message st)
                  \<and> getProp (hull_message st) ''Subject'' = JStr ''ship:update'' \<longrightarrow>
                  fetches (snd (enrichWithHullClient env c req st))
                    = fetches c @ [(tenant req, shipId)])
               \<and> (getProp (hull_message st) ''Subject'' \<noteq> JStr ''ship:update'' \<longrightarrow>
                    (\<forall>p. cacheRead (arrayMember env) c shipId = CFetch p \<longrightarrow>
                       fetches (snd (enrichWithHullClient env c req st)) = fetches c))"
    if h: "present (config req ''organization'') \<and> present (config req ''ship'')
             \<and> present (config req ''secret'') \<and> str (config req ''ship'') = shipId"
    for env :: "'h env" and req and st :: "'h hull"
  proof -
    from h assms have s: "str (config req ''ship'') \<noteq> ''length''" by simp
    have a: "fetches (snd (enrichWithHullClient env c req st)) = fetches c @ [(tenant req, shipId)]"
      if "truthy (hull_message st) \<and> getProp (hull_message st) ''Subject'' = JStr ''ship:update''"
      using enrich_fetch(1)[of req st env c] h that by (simp add: forceShipUpdate_def)
    have b: "fetches (snd (enrichWithHullClient env c req st)) = fetches c"
      if "getProp (hull_message st) ''Subject'' \<noteq> JStr ''ship:update''"
        and "cacheRead (arrayMember env) c shipId = CFetch p" for p
      using enrich_hit(1)[of req st env c p] h s that by (simp add: forceShipUpdate_def)
    from a b show ?thesis by blast
  qed
  from one two three four show ?thesis by blast
qed

text \<open>Three resolutions for one ship id on an empty cache: two unforced, then a forced one.\<close>

lemma cache_coalesces_sample:
  "getCurrentShip arrayMembers emptyCache ''5103a55193e74e3a0e000005'' acme False
     = (Inr (CFetch 0), afterFirst)
   \<and> getCurrentShip arrayMembers afterFirst ''5103a55193e74e3a0e000005'' acme False
     = (Inr (CFetch 0), afterFirst)
   \<and> fetches afterFirst = [(acme, ''5103a55193e74e3a0e000005'')]
   \<and> fst (getCurrentShip arrayMembers afterFirst ''5103a55193e74e3a0e000005'' acme True)
     = Inr (CFetch 1)
   \<and> fetches (snd (getCurrentShip arrayMembers afterFirst ''5103a55193e74e3a0e000005'' acme True))
     = [(acme, ''5103a55193e74e3a0e000005''), (acme, ''5103a55193e74e3a0e000005'')]"
proof -
  have index: "arrayIndex ''5103a55193e74e3a0e000005'' = None"
    by (simp add: arrayIndex_def digit_def)
  have member: "\<not> arrayMembers ''5103a55193e74e3a0e000005''"
    by (simp add: arrayMembers_def objectPrototype_def)
  have first: "getCurrentShip arrayMembers emptyCache ''5103a55193e74e3a0e000005'' acme False
     = (Inr (CFetch 0), afterFirst)"
    using index member
    by (simp add: getCurrentShip_def cacheRead_def store_def emptyCache_def afterFirst_def Let_def)
  have second: "getCurrentShip arrayMembers afterFirst ''5103a55193e74e3a0e000005'' acme False
     = (Inr (CFetch 0), afterFirst)"
    using index
    by (simp add: getCurrentShip_def cacheRead_def assignBack_def store_def afterFirst_def Let_def)
  have forced: "fst (getCurrentShip arrayMembers afterFirst ''5103a55193e74e3a0e000005'' acme True)
     = Inr (CFetch (length (fetches afterFirst)))"
    using getCurrentShip_forced[of "''5103a55193e74e3a0e000005''" arrayMembers afterFirst acme]
    by simp
  have fetched: "fetches (snd (getCurrentShip arrayMembers afterFirst
                     ''5103a55193e74e3a0e000005'' acme True))
     = fetches afterFirst @ [(acme, ''5103a55193e74e3a0e000005'')]"
    by (rule getCurrentShip_forced_fetches)
  from first second forced fetched show ?thesis by (simp add: afterFirst_def)
qed

lemma sampleParse_order: "sampleParse (JStr orderText) = Some (envelope ''order:create'')"
  by (simp add: sampleParse_def orderText_def)

lemma sampleParse_empty: "sampleParse (JStr ''{}'') = Some (JObj [])"
  by (simp add: sampleParse_def)

lemma sample_verifySignature:
  "verifySignature (world valid behaviours) (signatureOptions defaults)
      (arriving (envelope ''order:create''))
     = ((arriving (envelope ''order:create''))
          \<lparr>hull_notification := Some (received ''order:create'' (JObj []))\<rparr>, Continue)"
  by (simp add: verifySignature_def onValidated_def world_def valid_def envelope_def arriving_def
      newRequest_def sampleParse_empty received_def Let_def)

lemma sample_processHandlers:
  "processHandlers (world valid behaviours) [''order:create'' \<mapsto> [''slow'']]
      ((arriving (envelope ''order:create''))
          \<lparr>hull_notification := Some (received ''order:create'' (JObj []))\<rparr>)
      (received ''order:create'' (JObj []))
   = (((arriving (envelope ''order:create''))
          \<lparr>hull_notification := Some (received ''order:create'' (JObj [])),
            invoked := [(''slow'', received ''order:create'' (JObj []))]\<rparr>, Continue), Some 5)"
  by (simp add: processHandlers_def dispatch_def getHandlerName_order_create messageHandlers_def
      lookupHandlers_def invokeEach_def callHandler_def eventHandlers_def promiseAll_def Let_def
      world_def behaviours_def envelope_def arriving_def newRequest_def)

lemma config_lengthQuery:
  "config (lengthQuery raw) ''organization'' = Some ''acme.hullapp.io''"
  "config (lengthQuery raw) ''ship'' = Some ''length''"
  "config (lengthQuery raw) ''secret'' = Some ''s3cret''"
  by (simp_all add: config_key lengthQuery_def trim_def isSpace_def)

lemma tenant_lengthQuery: "tenant (lengthQuery raw) = lengthClient"
  by (simp add: tenant_def config_lengthQuery str_def lengthClient_def)

lemma not_forced_order: "\<not> forceShipUpdate ((arriving (envelope ''order:create''))\<lparr>hull_notification := n\<rparr>)"
  by (simp add: forceShipUpdate_def arriving_def envelope_def)

lemma enrich_length:
  assumes "len c = 0" "\<not> forceShipUpdate st"
  shows "enrichWithHullClient env c (lengthQuery raw) st
         = ((st\<lparr>hull_client := Some lengthClient\<rparr>, Escaped),
            c\<lparr>fetches := fetches c @ [(lengthClient, ''length'')]\<rparr>)"
proof -
  have all: "present (config (lengthQuery raw) ''organization'')"
    "present (config (lengthQuery raw) ''ship'')" "present (config (lengthQuery raw) ''secret'')"
    by (simp_all add: config_lengthQuery present_def)
  have "\<not> cellTruthy (cacheRead (arrayMember env) c ''length'')"
    using assms(1) by (simp add: cacheRead_def)
  from getCurrentShip_miss(3)[OF this refl, of lengthClient] assms(2) show ?thesis
    unfolding enrich_resolves[OF all] by (simp add: config_lengthQuery str_def tenant_lengthQuery)
qed

lemma parse_order:
  "parseRequest (world v behaviours) (lengthQuery orderText) (newRequest\<lparr>onError := False\<rparr>)
     = (arriving (envelope ''order:create''), Continue)"
  by (simp add: parseRequest_def lengthQuery_def world_def sampleParse_order arriving_def
      newRequest_def)

text \<open>
  C3. The cache is to coalesce the fetches for every tenant id. The code departs from this
  for the ship id \<^verbatim>\<open>length\<close>: \<^verbatim>\<open>_cache\<close> is an array, \<^verbatim>\<open>_cache['length']\<close> is its length, 0 and
  falsy while no id that is an array index is stored, so every resolution calls
  \<^verbatim>\<open>client.get('length')\<close>, and the assignment of the promise to \<^verbatim>\<open>length\<close> throws a
  \<^verbatim>\<open>RangeError\<close>: nothing is stored. Two requests for that tenant, neither with the subject
  \<^verbatim>\<open>ship:update\<close>, start two fetches, and each ends with the exception.
\<close>

theorem length_not_coalesced:
  "getCurrentShip arrayMembers emptyCache ''length'' lengthClient False
     = (Inl rangeError, emptyCache\<lparr>fetches := [(lengthClient, ''length'')]\<rparr>)
   \<and> getCurrentShip arrayMembers (emptyCache\<lparr>fetches := [(lengthClient, ''length'')]\<rparr>)
         ''length'' lengthClient False
     = (Inl rangeError,
        emptyCache\<lparr>fetches := [(lengthClient, ''length''), (lengthClient, ''length'')]\<rparr>)
   \<and> handler (world valid behaviours) defaults [''order:create'' \<mapsto> [''slow'']] emptyCache
        (lengthQuery orderText)
     = (((arriving (envelope ''order:create''))
           \<lparr>hull_notification := Some (received ''order:create'' (JObj [])),
             hull_client := Some lengthClient\<rparr>, Escaped),
        emptyCache\<lparr>fetches := [(lengthClient, ''length'')]\<rparr>)
   \<and> handler (world valid behaviours) defaults [''order:create'' \<mapsto> [''slow'']]
        (emptyCache\<lparr>fetches := [(lengthClient, ''length'')]\<rparr>) (lengthQuery orderText)
     = (((arriving (envelope ''order:create''))
           \<lparr>hull_notification := Some (received ''order:create'' (JObj [])),
             hull_client := Some lengthClient\<rparr>, Escaped),
        emptyCache\<lparr>fetches := [(lengthClient, ''length''), (lengthClient, ''length'')]\<rparr>)"
proof -
  have g: "getCurrentShip arrayMembers c ''length'' lengthClient False
           = (Inl rangeError, c\<lparr>fetches := fetches c @ [(lengthClient, ''length'')]\<rparr>)"
    if "len c = 0" for c
    using that by (simp add: getCurrentShip_def cacheRead_def Let_def)
  have h: "handler (world valid behaviours) defaults [''order:create'' \<mapsto> [''slow'']] c
             (lengthQuery orderText)
           = (((arriving (envelope ''order:create''))
                 \<lparr>hull_notification := Some (received ''order:create'' (JObj [])),
                   hull_client := Some lengthClient\<rparr>, Escaped),
              c\<lparr>fetches := fetches c @ [(lengthClient, ''length'')]\<rparr>)"
    if "len c = 0" for c
    by (simp add: handler_def errorHandler_def defaults_def parse_order
        sample_verifySignature[unfolded defaults_def] afterSignature_def
        enrich_length[OF that not_forced_order])
  show ?thesis using g[of emptyCache] g[of "emptyCache\<lparr>fetches := [(lengthClient, ''length'')]\<rparr>"]
      h[of emptyCache] h[of "emptyCache\<lparr>fetches := [(lengthClient, ''length'')]\<rparr>"]
    by (simp add: emptyCache_def)
qed

section \<open>Tenant resolution\<close>









section \<open>Signature verification\<close>

lemma onValidated_warned:
  "onValidated env opts (st\<lparr>warned := w\<rparr>)
     = ((fst (onValidated env opts st))\<lparr>warned := w\<rparr>, snd (onValidated env opts st))"
  by (simp add: onValidated_def handleError_def https_get_def Let_def
      split: option.splits get_result.splits)

lemma onValidated_keeps_warned: "warned (fst (onValidated env opts st)) = warned st"
  by (simp add: onValidated_def handleError_def https_get_def Let_def
      split: option.splits get_result.splits)

lemma onValidated_validate: "onValidated (env\<lparr>validate := f\<rparr>) opts st = onValidated env opts st"
  by (simp add: onValidated_def Let_def cong del: case_congs)

lemma enrich_warned:
  "enrichWithHullClient env c req (st\<lparr>warned := w\<rparr>)
     = (((fst (fst (enrichWithHullClient env c req st)))\<lparr>warned := w\<rparr>,
         snd (fst (enrichWithHullClient env c req st))),
        snd (enrichWithHullClient env c req st))"
  by (simp add: enrichWithHullClient_def forceShipUpdate_def handleError_def Let_def
      split: prod.splits sum.splits cell.splits fetched.splits reason.splits)

lemma dispatch_warned: "dispatch env handlers (st\<lparr>warned := w\<rparr>) n = dispatch env handlers st n"
  by (simp add: dispatch_def Let_def cong del: case_congs)

lemma processHandlers_warned:
  "processHandlers env handlers (st\<lparr>warned := w\<rparr>) n
     = (((fst (fst (processHandlers env handlers st n)))\<lparr>warned := w\<rparr>,
         snd (fst (processHandlers env handlers st n))),
        snd (processHandlers env handlers st n))"
  by (simp add: processHandlers_def dispatch_warned handleError_def Let_def
      split: option.splits reason.splits joined.splits)

lemma callHandler_validate: "callHandler (env\<lparr>validate := f\<rparr>) = callHandler env"
  by (intro ext) (simp add: callHandler_def cong del: case_congs)

lemma dispatch_validate: "dispatch (env\<lparr>validate := f\<rparr>) = dispatch env"
  by (intro ext)
     (simp add: dispatch_def invokeEach_def callHandler_validate Let_def cong del: case_congs)

lemma processHandlers_validate: "processHandlers (env\<lparr>validate := f\<rparr>) = processHandlers env"
  by (intro ext) (simp add: processHandlers_def dispatch_validate)

lemma enrich_validate: "enrichWithHullClient (env\<lparr>validate := f\<rparr>) = enrichWithHullClient env"
  by (intro ext) (simp add: enrichWithHullClient_def Let_def cong del: case_congs)

lemma afterSignature_validate: "afterSignature (env\<lparr>validate := f\<rparr>) = afterSignature env"
  by (intro ext)
     (simp add: afterSignature_def enrich_validate processHandlers_validate cong del: case_congs)

lemma enrich_keeps_warned: "warned (fst (fst (enrichWithHullClient env c req st))) = warned st"
  by (simp add: enrichWithHullClient_def handleError_def Let_def
      split: prod.splits sum.splits cell.splits fetched.splits reason.splits)

lemma processHandlers_keeps_warned:
  "warned (fst (fst (processHandlers env handlers st n))) = warned st"
  by (simp add: processHandlers_def handleError_def Let_def
      split: option.splits reason.splits joined.splits)

lemma ok_warned: "ok (st\<lparr>warned := w\<rparr>, v) = ((fst (ok (st, v)))\<lparr>warned := w\<rparr>, snd (ok (st, v)))"
  by (cases v) (simp_all add: ok_def)

lemma ok_keeps_warned: "warned (fst (ok (st, v))) = warned st"
  by (cases v) (simp_all add: ok_def)

lemma afterSignature_warned:
  "afterSignature env handlers c req (st\<lparr>warned := w\<rparr>)
     = (((fst (fst (afterSignature env handlers c req st)))\<lparr>warned := w\<rparr>,
         snd (fst (afterSignature env handlers c req st))),
        snd (afterSignature env handlers c req st))"
proof -
  obtain st3 v3 c' where en: "enrichWithHullClient env c req st = ((st3, v3), c')"
    by (metis prod.collapse)
  have en': "enrichWithHullClient env c req (st\<lparr>warned := w\<rparr>) = ((st3\<lparr>warned := w\<rparr>, v3), c')"
    using en by (simp add: enrich_warned)
  show ?thesis
  proof (cases "v3 = Continue")
    case False
    then show ?thesis using en en' by (cases v3) (simp_all add: afterSignature_def)
  next
    case True
    show ?thesis
    proof (cases "hull_notification st3")
      case None
      then show ?thesis using True en en' by (simp add: afterSignature_def)
    next
      case (Some n)
      obtain st4 v4 t where ph: "processHandlers env handlers st3 n = ((st4, v4), t)"
        by (metis prod.collapse)
      have ph': "processHandlers env handlers (st3\<lparr>warned := w\<rparr>) n = ((st4\<lparr>warned := w\<rparr>, v4), t)"
        using ph by (simp add: processHandlers_warned)
      show ?thesis using True en en' Some ph ph' by (simp add: afterSignature_def ok_warned)
    qed
  qed
qed

lemma afterSignature_keeps_warned:
  "warned (fst (fst (afterSignature env handlers c req st))) = warned st"
proof -
  obtain st3 v3 c' where en: "enrichWithHullClient env c req st = ((st3, v3), c')"
    by (metis prod.collapse)
  have w3: "warned st3 = warned st" using enrich_keeps_warned[of env c req st] en by simp
  show ?thesis
  proof (cases "v3 = Continue")
    case False
    then show ?thesis using en w3 by (cases v3) (simp_all add: afterSignature_def)
  next
    case True
    show ?thesis
    proof (cases "hull_notification st3")
      case None
      then show ?thesis using True en w3 by (simp add: afterSignature_def)
    next
      case (Some n)
      obtain st4 v4 t where ph: "processHandlers env handlers st3 n = ((st4, v4), t)"
        by (metis prod.collapse)
      have "warned st4 = warned st3" using processHandlers_keeps_warned[of env handlers st3 n] ph by simp
      then show ?thesis using True en Some ph w3 by (simp add: afterSignature_def ok_keeps_warned)
    qed
  qed
qed

lemma handler_parsed:
  assumes "body req = Some raw" "parse env (JStr raw) = Some msg"
  shows "handler env opts handlers c req
         = (case verifySignature env (signatureOptions opts)
                  (newRequest\<lparr>onError := opt_onError opts, hull_message := msg\<rparr>) of
              (st2, Continue) \<Rightarrow> afterSignature env handlers c req st2
            | r \<Rightarrow> (r, c))"
  using assms by (simp add: handler_def errorHandler_def parseRequest_def)

lemma handler_relaxed:
  assumes body: "body req = Some raw" and parsed: "parse env (JStr raw) = Some msg"
    and msg: "truthy msg" and bad: "validate env msg = Invalid err"
  shows "handler env opts handlers c req
         = warn msg (handler (env\<lparr>validate := \<lambda>m. Valid\<rparr>) opts handlers c req)"
proof -
  let ?st1 = "newRequest\<lparr>onError := opt_onError opts, hull_message := msg\<rparr> :: 'a hull"
  let ?so = "signatureOptions opts"
  let ?env = "env\<lparr>validate := \<lambda>m. Valid\<rparr>"
  obtain st2 v where ov: "onValidated env ?so ?st1 = (st2, v)" by (cases "onValidated env ?so ?st1")
  have w1: "warned ?st1 = []" by (simp add: newRequest_def)
  have w2: "warned st2 = []" using onValidated_keeps_warned[of env ?so ?st1] ov w1 by simp
  have good: "verifySignature ?env ?so ?st1 = (st2, v)"
    using msg ov by (simp add: verifySignature_def onValidated_validate)
  have "verifySignature env ?so ?st1 = onValidated env ?so (?st1\<lparr>warned := warned ?st1 @ [msg]\<rparr>)"
    using msg bad by (simp add: verifySignature_def signatureOptions_def)
  also have "\<dots> = (st2\<lparr>warned := [msg]\<rparr>, v)"
    unfolding onValidated_warned[where st = "?st1"] ov w1 by simp
  finally have relaxed: "verifySignature env ?so ?st1 = (st2\<lparr>warned := [msg]\<rparr>, v)" .
  have h1: "handler env opts handlers c req
            = (case (st2\<lparr>warned := [msg]\<rparr>, v) of
                 (st2, Continue) \<Rightarrow> afterSignature env handlers c req st2 | r \<Rightarrow> (r, c))"
    using handler_parsed[OF body parsed] relaxed by simp
  have h2: "handler ?env opts handlers c req
            = (case (st2, v) of
                 (st2, Continue) \<Rightarrow> afterSignature env handlers c req st2 | r \<Rightarrow> (r, c))"
    using handler_parsed[of req raw ?env msg opts handlers c] body parsed good
    by (simp add: afterSignature_validate)
  show ?thesis
  proof (cases "v = Continue")
    case False
    then show ?thesis unfolding h1 h2 using w2 by (cases v) (simp_all add: warn_def)
  next
    case True
    have "warned (fst (fst (afterSignature env handlers c req st2))) = []"
      using afterSignature_keeps_warned[of env handlers c req st2] w2 by simp
    then show ?thesis unfolding h1 h2 using True
      by (simp add: warn_def afterSignature_warned)
  qed
qed

text \<open>
  C5. When the validator rejects the signature of an envelope: under strict enforcement the
  stage answers 400 with the validator's error; under relaxed enforcement it logs a warning
  and goes on exactly as for a valid signature. \<^verbatim>\<open>NotifHandler\<close> always configures the relaxed
  mode, so a request with an invalid signature ends as the same request with a valid one,
  with one warning more.
\<close>

theorem signature_failure:
  assumes msg: "truthy msg" and bad: "validate env msg = Invalid err"
  shows "(\<forall>st opts. hull_message st = msg \<and> enforceValidation opts \<longrightarrow>
            verifySignature env opts st = handleError st err 400
            \<and> snd (handleError st err 400) = Replied 400 err)
       \<and> (\<forall>st opts. hull_message st = msg \<and> \<not> enforceValidation opts \<longrightarrow>
            verifySignature env opts st
              = ((fst (verifySignature (env\<lparr>validate := \<lambda>m. Valid\<rparr>) opts st))
                    \<lparr>warned := warned st @ [msg]\<rparr>,
                 snd (verifySignature (env\<lparr>validate := \<lambda>m. Valid\<rparr>) opts st)))
       \<and> (\<forall>nopts :: 'h notif_options. \<not> enforceValidation (signatureOptions nopts))
       \<and> (\<forall>req raw (nopts :: 'h notif_options) handlers c.
            body req = Some raw \<and> parse env (JStr raw) = Some msg \<longrightarrow>
            handler env nopts handlers c req
              = warn msg (handler (env\<lparr>validate := \<lambda>m. Valid\<rparr>) nopts handlers c req))"
proof -
  have a: "verifySignature env opts st = handleError st err 400
            \<and> snd (handleError st err 400) = Replied 400 err"
    if "hull_message st = msg \<and> enforceValidation opts" for st :: "'h hull" and opts
    using that msg bad by (simp add: verifySignature_def handleError_def)
  have b: "verifySignature env opts st
              = ((fst (verifySignature (env\<lparr>validate := \<lambda>m. Valid\<rparr>) opts st))
                    \<lparr>warned := warned st @ [msg]\<rparr>,
                 snd (verifySignature (env\<lparr>validate := \<lambda>m. Valid\<rparr>) opts st))"
    if "hull_message st = msg \<and> \<not> enforceValidation opts" for st :: "'h hull" and opts
    using that msg bad
    by (simp add: verifySignature_def onValidated_warned onValidated_validate)
  have c: "\<not> enforceValidation (signatureOptions nopts)" for nopts :: "'h notif_options"
    by (simp add: signatureOptions_def)
  have d: "handler env nopts handlers c req
              = warn msg (handler (env\<lparr>validate := \<lambda>m. Valid\<rparr>) nopts handlers c req)"
    if "body req = Some raw \<and> parse env (JStr raw) = Some msg"
    for req raw and nopts :: "'h notif_options" and handlers c
    using that handler_relaxed[OF _ _ msg bad] by blast
  from a b c d show ?thesis by blast
qed

lemma sampleParse_confirmation: "sampleParse (JStr confirmationText) = Some confirmation"
  by (simp add: sampleParse_def confirmationText_def orderText_def)

lemma sampleParse_goodbye: "sampleParse (JStr goodbyeText) = Some goodbye"
  by (simp add: sampleParse_def confirmationText_def orderText_def goodbyeText_def)

lemma world_valid: "(world invalid behaviours)\<lparr>validate := \<lambda>m. Valid\<rparr> = world valid behaviours"
  by (simp add: world_def valid_def fun_eq_iff)

lemma sample_handler:
  "handler (world valid behaviours) defaults [''order:create'' \<mapsto> [''slow'']] emptyCache
      (posted orderText)
   = (((arriving (envelope ''order:create''))
          \<lparr>hull_notification := Some (received ''order:create'' (JObj [])),
            invoked := [(''slow'', received ''order:create'' (JObj []))]\<rparr>,
       Replied 200 ''ok''), emptyCache)"
proof -
  have p: "parseRequest (world valid behaviours) (posted orderText)
             (newRequest\<lparr>onError := opt_onError defaults\<rparr>)
           = (arriving (envelope ''order:create''), Continue)"
    by (simp add: parseRequest_def posted_def world_def sampleParse_order arriving_def
        defaults_def newRequest_def)
  have e: "enrichWithHullClient (world valid behaviours) emptyCache (posted orderText) st
           = ((st, Continue), emptyCache)" for st
    by (rule enrich_skipped) (simp add: config_posted present_def)
  show ?thesis
    by (simp add: handler_def errorHandler_def p sample_verifySignature afterSignature_def e
        sample_processHandlers ok_def)
qed

text \<open>
  An \<^verbatim>\<open>order:create\<close> notification that the validator rejects: answered 400 under strict
  enforcement; through \<^verbatim>\<open>NotifHandler\<close> it reaches its handler and is answered \<^verbatim>\<open>ok\<close>, with
  the warning logged.
\<close>

theorem signature_failure_witness:
  "truthy (envelope ''order:create'')
   \<and> validate (world invalid behaviours) (envelope ''order:create'')
       = Invalid ''Error: The message signature is invalid.''
   \<and> verifySignature (world invalid behaviours) strict (arriving (envelope ''order:create''))
       = (arriving (envelope ''order:create''),
          Replied 400 ''Error: The message signature is invalid.'')
   \<and> handler (world invalid behaviours) defaults [''order:create'' \<mapsto> [''slow'']] emptyCache
        (posted orderText)
       = (((arriving (envelope ''order:create''))
            \<lparr>hull_notification := Some (received ''order:create'' (JObj [])),
              warned := [envelope ''order:create''],
              invoked := [(''slow'', received ''order:create'' (JObj []))]\<rparr>,
           Replied 200 ''ok''), emptyCache)"
proof -
  have msg: "truthy (envelope ''order:create'')" by (simp add: envelope_def)
  have bad: "validate (world invalid behaviours) (envelope ''order:create'')
       = Invalid ''Error: The message signature is invalid.''"
    by (simp add: world_def invalid_def)
  note S = signature_failure[OF msg bad]
  have "verifySignature (world invalid behaviours) strict (arriving (envelope ''order:create''))
       = handleError (arriving (envelope ''order:create''))
           ''Error: The message signature is invalid.'' 400"
    using S by (simp add: strict_def arriving_def)
  then have strict: "verifySignature (world invalid behaviours) strict (arriving (envelope ''order:create''))
       = (arriving (envelope ''order:create''),
          Replied 400 ''Error: The message signature is invalid.'')"
    by (simp add: handleError_def arriving_def newRequest_def)
  have "handler (world invalid behaviours) defaults [''order:create'' \<mapsto> [''slow'']] emptyCache
        (posted orderText)
       = warn (envelope ''order:create'')
           (handler ((world invalid behaviours)\<lparr>validate := \<lambda>m. Valid\<rparr>) defaults
              [''order:create'' \<mapsto> [''slow'']] emptyCache (posted orderText))"
    using S by (simp add: posted_def world_def sampleParse_order)
  then have relaxed: "handler (world invalid behaviours) defaults [''order:create'' \<mapsto> [''slow'']]
        emptyCache (posted orderText)
       = (((arriving (envelope ''order:create''))
            \<lparr>hull_notification := Some (received ''order:create'' (JObj [])),
              warned := [envelope ''order:create''],
              invoked := [(''slow'', received ''order:create'' (JObj []))]\<rparr>,
           Replied 200 ''ok''), emptyCache)"
    unfolding world_valid sample_handler by (simp add: warn_def arriving_def newRequest_def)
  from msg bad strict relaxed show ?thesis by simp
qed

section \<open>Envelopes of another type\<close>

text \<open>
  A decoded body that is falsy (\<^verbatim>\<open>null\<close>, \<^verbatim>\<open>0\<close>, \<^verbatim>\<open>false\<close>, the empty string) is answered 400
  before anything of it is read. Any other value whose \<^verbatim>\<open>Type\<close> is neither of the two gets
  neither \<^verbatim>\<open>next()\<close> nor a response from the stage, unless strict enforcement rejected its
  signature: the stage returns, or the validator's exception leaves it.
\<close>

lemma verifySignature_empty_message:
  "\<not> truthy (hull_message st) \<Longrightarrow>
   verifySignature env opts st = handleError st ''Empty Message'' 400"
  by (simp add: verifySignature_def)

lemma verifySignature_other_type:
  assumes "truthy (hull_message st)"
    and "getProp (hull_message st) ''Type'' \<noteq> JStr ''SubscriptionConfirmation''"
    and "getProp (hull_message st) ''Type'' \<noteq> JStr ''Notification''"
    and "\<not> enforceValidation opts"
  shows "verifySignature env opts st
         = (case validate env (hull_message st) of
              ValidatorThrows e \<Rightarrow> (st, Escaped)
            | Invalid err \<Rightarrow> (st\<lparr>warned := warned st @ [hull_message st]\<rparr>, Stalled)
            | Valid \<Rightarrow> (st, Stalled))"
  using assms
  by (simp add: verifySignature_def onValidated_def Let_def split: validation.splits)

text \<open>
  C6. For every envelope (a decoded object) whose \<^verbatim>\<open>Type\<close> is neither
  \<^verbatim>\<open>SubscriptionConfirmation\<close> nor \<^verbatim>\<open>Notification\<close>, the signature-verification stage of the
  pipeline neither calls the next stage nor sends a response. When the validator calls back,
  whether it accepts the signature or not, the stage returns and the request is left
  without an answer; when the validator throws, its exception leaves the stage before
  anything is called or sent. Either way the stage reports no error to the observer, calls
  no subscription callback and sets no notification, and in the pipeline no client is
  constructed, no handler is called and the cache is untouched.
\<close>

theorem other_type_stalls:
  assumes t1: "getProp (JObj kvs) ''Type'' \<noteq> JStr ''SubscriptionConfirmation''"
    and t2: "getProp (JObj kvs) ''Type'' \<noteq> JStr ''Notification''"
  shows "(\<forall>(st :: 'h hull) (nopts :: 'h notif_options). hull_message st = JObj kvs \<longrightarrow>
            snd (verifySignature env (signatureOptions nopts) st) \<noteq> Continue
            \<and> (\<forall>sc reply. snd (verifySignature env (signatureOptions nopts) st) \<noteq> Replied sc reply)
            \<and> snd (verifySignature env (signatureOptions nopts) st)
                = (case validate env (JObj kvs) of ValidatorThrows e \<Rightarrow> Escaped | _ \<Rightarrow> Stalled)
            \<and> observed (fst (verifySignature env (signatureOptions nopts) st)) = observed st
            \<and> subscribed (fst (verifySignature env (signatureOptions nopts) st)) = subscribed st
            \<and> hull_notification (fst (verifySignature env (signatureOptions nopts) st))
                = hull_notification st)
       \<and> (\<forall>req raw (nopts :: 'h notif_options) handlers c.
            body req = Some raw \<and> parse env (JStr raw) = Some (JObj kvs) \<longrightarrow>
            snd (fst (handler env nopts handlers c req))
              = (case validate env (JObj kvs) of ValidatorThrows e \<Rightarrow> Escaped | _ \<Rightarrow> Stalled)
            \<and> observed (fst (fst (handler env nopts handlers c req))) = []
            \<and> invoked (fst (fst (handler env nopts handlers c req))) = []
            \<and> hull_client (fst (fst (handler env nopts handlers c req))) = None
            \<and> snd (handler env nopts handlers c req) = c)"
proof -
  have stage: "verifySignature env (signatureOptions nopts) st
         = (case validate env (JObj kvs) of
              ValidatorThrows e \<Rightarrow> (st, Escaped)
            | Invalid err \<Rightarrow> (st\<lparr>warned := warned st @ [JObj kvs]\<rparr>, Stalled)
            | Valid \<Rightarrow> (st, Stalled))"
    if "hull_message st = JObj kvs" for st :: "'h hull" and nopts :: "'h notif_options"
    using that t1 t2 verifySignature_other_type[of st "signatureOptions nopts" env]
    by (simp add: signatureOptions_def split: validation.splits)
  have a: "snd (verifySignature env (signatureOptions nopts) st) \<noteq> Continue
            \<and> (\<forall>sc reply. snd (verifySignature env (signatureOptions nopts) st) \<noteq> Replied sc reply)
            \<and> snd (verifySignature env (signatureOptions nopts) st)
                = (case validate env (JObj kvs) of ValidatorThrows e \<Rightarrow> Escaped | _ \<Rightarrow> Stalled)
            \<and> observed (fst (verifySignature env (signatureOptions nopts) st)) = observed st
            \<and> subscribed (fst (verifySignature env (signatureOptions nopts) st)) = subscribed st
            \<and> hull_notification (fst (verifySignature env (signatureOptions nopts) st))
                = hull_notification st"
    if "hull_message st = JObj kvs" for st :: "'h hull" and nopts :: "'h notif_options"
    unfolding stage[OF that] by (simp split: validation.splits)
  have b: "snd (fst (handler env nopts handlers c req))
              = (case validate env (JObj kvs) of ValidatorThrows e \<Rightarrow> Escaped | _ \<Rightarrow> Stalled)
            \<and> observed (fst (fst (handler env nopts handlers c req))) = []
            \<and> invoked (fst (fst (handler env nopts handlers c req))) = []
            \<and> hull_client (fst (fst (handler env nopts handlers c req))) = None
            \<and> snd (handler env nopts handlers c req) = c"
    if h: "body req = Some raw \<and> parse env (JStr raw) = Some (JObj kvs)"
    for req raw and nopts :: "'h notif_options" and handlers c
  proof -
    let ?st1 = "newRequest\<lparr>onError := opt_onError nopts, hull_message := JObj kvs\<rparr> :: 'h hull"
    have "handler env nopts handlers c req
          = (case verifySignature env (signatureOptions nopts) ?st1 of
               (st2, Continue) \<Rightarrow> afterSignature env handlers c req st2
             | r \<Rightarrow> (r, c))"
      using h by (simp add: handler_def errorHandler_def parseRequest_def)
    also have "verifySignature env (signatureOptions nopts) ?st1
         = (case validate env (JObj kvs) of
              ValidatorThrows e \<Rightarrow> (?st1, Escaped)
            | Invalid err \<Rightarrow> (?st1\<lparr>warned := warned ?st1 @ [JObj kvs]\<rparr>, Stalled)
            | Valid \<Rightarrow> (?st1, Stalled))"
      by (rule stage) simp
    finally show ?thesis by (simp add: newRequest_def split: validation.splits)
  qed
  from a b show ?thesis by blast
qed

text \<open>
  The body \<^verbatim>\<open>{}\<close>, an envelope without a \<^verbatim>\<open>Type\<close>, with a validator that calls back; and an
  envelope of the type \<^verbatim>\<open>UnsubscribeConfirmation\<close> on which the validator throws.
\<close>

theorem other_type_stalls_witness:
  "getProp (JObj []) ''Type'' = JUndefined
   \<and> handler (world valid behaviours) defaults [''order:create'' \<mapsto> [''slow'']] emptyCache
        (posted ''{}'')
       = ((arriving (JObj []), Stalled), emptyCache)
   \<and> getProp goodbye ''Type'' = JStr ''UnsubscribeConfirmation''
   \<and> validate (world fragile behaviours) goodbye
       = ValidatorThrows (typeError ''Cannot read property substr of null'')
   \<and> handler (world fragile behaviours) defaults [''order:create'' \<mapsto> [''slow'']] emptyCache
        (posted goodbyeText)
       = ((arriving goodbye, Escaped), emptyCache)"
proof -
  let ?H = "[''order:create'' \<mapsto> [''slow'']]"
  have state: "fst (fst (handler (world v behaviours) defaults ?H emptyCache (posted raw)))
                 = arriving msg"
    if "sampleParse (JStr raw) = Some msg" "truthy msg"
      "getProp msg ''Type'' \<noteq> JStr ''SubscriptionConfirmation''"
      "getProp msg ''Type'' \<noteq> JStr ''Notification''" "\<forall>err. v msg \<noteq> Invalid err"
    for v raw msg
    using that
    by (simp add: handler_def errorHandler_def parseRequest_def verifySignature_def
        onValidated_def posted_def world_def arriving_def defaults_def newRequest_def
        signatureOptions_def Let_def split: validation.splits)
  have t1: "getProp (JObj []) ''Type'' \<noteq> JStr ''SubscriptionConfirmation''" by simp
  have t2: "getProp (JObj []) ''Type'' \<noteq> JStr ''Notification''" by simp
  have parsed: "body (posted ''{}'') = Some ''{}''
      \<and> parse (world valid behaviours) (JStr ''{}'') = Some (JObj [])"
    by (simp add: posted_def world_def sampleParse_empty)
  have st: "fst (fst (handler (world valid behaviours) defaults ?H emptyCache (posted ''{}'')))
              = arriving (JObj [])"
    by (rule state) (simp_all add: sampleParse_empty valid_def)
  from other_type_stalls[OF t1 t2, of "world valid behaviours"] parsed
  have "snd (fst (handler (world valid behaviours) defaults ?H emptyCache (posted ''{}'')))
          = (case validate (world valid behaviours) (JObj []) of
               ValidatorThrows e \<Rightarrow> Escaped | _ \<Rightarrow> Stalled)
        \<and> snd (handler (world valid behaviours) defaults ?H emptyCache (posted ''{}''))
          = emptyCache"
    by blast
  then have "snd (fst (handler (world valid behaviours) defaults ?H emptyCache (posted ''{}'')))
          = Stalled
        \<and> snd (handler (world valid behaviours) defaults ?H emptyCache (posted ''{}''))
          = emptyCache"
    by (simp add: world_def valid_def)
  with st have one: "handler (world valid behaviours) defaults ?H emptyCache (posted ''{}'')
         = ((arriving (JObj []), Stalled), emptyCache)"
    by (metis prod.collapse)
  have u1: "getProp (JObj [(''Type'', JStr ''UnsubscribeConfirmation''),
                            (''SigningCertURL'', JStr ''https:'')]) ''Type''
              \<noteq> JStr ''SubscriptionConfirmation''" by simp
  have u2: "getProp (JObj [(''Type'', JStr ''UnsubscribeConfirmation''),
                            (''SigningCertURL'', JStr ''https:'')]) ''Type''
              \<noteq> JStr ''Notification''" by simp
  have thrown: "validate (world fragile behaviours) goodbye
       = ValidatorThrows (typeError ''Cannot read property substr of null'')"
    by (simp add: world_def fragile_def goodbye_def)
  have parsed': "body (posted goodbyeText) = Some goodbyeText
      \<and> parse (world fragile behaviours) (JStr goodbyeText)
          = Some (JObj [(''Type'', JStr ''UnsubscribeConfirmation''),
                        (''SigningCertURL'', JStr ''https:'')])"
    by (simp add: posted_def world_def sampleParse_goodbye goodbye_def)
  have st': "fst (fst (handler (world fragile behaviours) defaults ?H emptyCache
                         (posted goodbyeText))) = arriving goodbye"
    by (rule state) (simp_all add: sampleParse_goodbye goodbye_def fragile_def)
  from other_type_stalls[OF u1 u2, of "world fragile behaviours"] parsed'
  have "snd (fst (handler (world fragile behaviours) defaults ?H emptyCache (posted goodbyeText)))
          = (case validate (world fragile behaviours)
                    (JObj [(''Type'', JStr ''UnsubscribeConfirmation''),
                           (''SigningCertURL'', JStr ''https:'')]) of
               ValidatorThrows e \<Rightarrow> Escaped | _ \<Rightarrow> Stalled)
        \<and> snd (handler (world fragile behaviours) defaults ?H emptyCache (posted goodbyeText))
          = emptyCache"
    by blast
  then have "snd (fst (handler (world fragile behaviours) defaults ?H emptyCache
                         (posted goodbyeText))) = Escaped
        \<and> snd (handler (world fragile behaviours) defaults ?H emptyCache (posted goodbyeText))
          = emptyCache"
    using thrown by (simp add: goodbye_def)
  with st' have two: "handler (world fragile behaviours) defaults ?H emptyCache
        (posted goodbyeText) = ((arriving goodbye, Escaped), emptyCache)"
    by (metis prod.collapse)
  from one two thrown show ?thesis by (simp add: goodbye_def)
qed

section \<open>Malformed bodies\<close>

text \<open>
  C9. For every request whose body cannot be read or does not parse, whatever its query
  parameters, the response is 400 with the message \<^verbatim>\<open>Invalid body\<close> (reported to the observer
  first, if there is one); no envelope is stored, no later stage runs, and the cache is
  untouched.
\<close>

theorem malformed_body:
  assumes "body req = None \<or> (\<exists>raw. body req = Some raw \<and> parse env (JStr raw) = None)"
  shows "handler env opts handlers c req
         = ((newRequest\<lparr>onError := opt_onError opts,
                        observed := (if opt_onError opts then [(''Invalid body'', 400)] else [])\<rparr>,
             Replied 400 ''Invalid body''), c)"
  using assms
  by (auto simp: handler_def errorHandler_def parseRequest_def handleError_def newRequest_def)

text \<open>A truncated body with tenant parameters in the query, and a body that fails to read.\<close>

theorem malformed_body_witness:
  "parse (world valid behaviours) (JStr ''{\"Type\":'') = None
   \<and> handler (world valid behaviours) defaults [''order:create'' \<mapsto> [''slow'']] emptyCache
        (sampleQuery ''{\"Type\":'')
       = ((newRequest, Replied 400 ''Invalid body''), emptyCache)
   \<and> handler (world valid behaviours) defaults [''order:create'' \<mapsto> [''slow'']] emptyCache
        \<lparr>query = (\<lambda>k. None), body = None\<rparr>
       = ((newRequest, Replied 400 ''Invalid body''), emptyCache)"
proof -
  have unparsed: "parse (world valid behaviours) (JStr ''{\"Type\":'') = None"
    by (simp add: world_def sampleParse_def orderText_def confirmationText_def goodbyeText_def)
  have one: "body (sampleQuery ''{\"Type\":'') = None
      \<or> (\<exists>raw. body (sampleQuery ''{\"Type\":'') = Some raw
               \<and> parse (world valid behaviours) (JStr raw) = None)"
    using unparsed by (simp add: sampleQuery_def)
  have two: "body \<lparr>query = (\<lambda>k. None), body = None\<rparr> = None
      \<or> (\<exists>raw. body \<lparr>query = (\<lambda>k. None), body = None\<rparr> = Some raw
               \<and> parse (world valid behaviours) (JStr raw) = None)"
    by simp
  from malformed_body[OF one] malformed_body[OF two] unparsed show ?thesis
    by (simp add: defaults_def newRequest_def)
qed

section \<open>The subscription handshake\<close>

text \<open>
  A handshake GET that gets its response ends the request with 200 and \<^verbatim>\<open>subscribed\<close>, after
  the subscription callback if one is configured; no later stage runs.
\<close>

lemma handshake_answered:
  assumes "truthy (hull_message st)"
    and "getProp (hull_message st) ''Type'' = JStr ''SubscriptionConfirmation''"
    and "validate env (hull_message st) = Valid
         \<or> (\<exists>err. validate env (hull_message st) = Invalid err) \<and> \<not> enforceValidation opts"
    and "handshake env (getProp (hull_message st) ''SubscribeURL'') = Responded"
  shows "snd (verifySignature env opts st) = Replied 200 ''subscribed''
         \<and> subscribed (fst (verifySignature env opts st))
             = (if onSubscribe opts then Suc (subscribed st) else subscribed st)"
  using assms
  by (auto simp: verifySignature_def onValidated_def https_get_def Let_def
      split: validation.splits)

lemma handshake_ends_request:
  assumes "body req = Some raw" "parse env (JStr raw) = Some msg" "truthy msg"
    and "getProp msg ''Type'' = JStr ''SubscriptionConfirmation''"
    and "\<forall>e. validate env msg \<noteq> ValidatorThrows e"
    and "handshake env (getProp msg ''SubscribeURL'') = Responded"
  shows "snd (fst (handler env opts handlers c req)) = Replied 200 ''subscribed''
         \<and> subscribed (fst (fst (handler env opts handlers c req)))
             = (if opt_onSubscribe opts then 1 else 0)
         \<and> invoked (fst (fst (handler env opts handlers c req))) = []
         \<and> hull_client (fst (fst (handler env opts handlers c req))) = None
         \<and> snd (handler env opts handlers c req) = c"
  using assms
  by (auto simp: handler_def errorHandler_def parseRequest_def verifySignature_def
      onValidated_def https_get_def signatureOptions_def newRequest_def Let_def
      split: validation.splits)

text \<open>
  C8. A handshake that succeeds is answered \<^verbatim>\<open>subscribed\<close>; one that fails is to be answered
  400. The code departs from the second half: the failure callback is passed to
  \<^verbatim>\<open>https.get\<close> as a third argument, which \<^verbatim>\<open>https.get\<close> does not take, so no callback runs
  when the request fails and the pipeline sends no response.
\<close>

theorem handshake_failure_unanswered:
  "handshake ((world valid behaviours)\<lparr>handshake := \<lambda>url. RequestError\<rparr>)
       (getProp confirmation ''SubscribeURL'') = RequestError
   \<and> verifySignature ((world valid behaviours)\<lparr>handshake := \<lambda>url. RequestError\<rparr>)
       (signatureOptions defaults) (arriving confirmation)
       = (arriving confirmation, Uncaught)
   \<and> handler ((world valid behaviours)\<lparr>handshake := \<lambda>url. RequestError\<rparr>) defaults
       (\<lambda>k. None) emptyCache (posted confirmationText)
       = ((arriving confirmation, Uncaught), emptyCache)"
  by (simp add: handler_def errorHandler_def parseRequest_def verifySignature_def
      onValidated_def https_get_def signatureOptions_def posted_def world_def valid_def
      sampleParse_confirmation confirmation_def arriving_def defaults_def newRequest_def Let_def)

end
